theory Spec2Isabelle
  imports Complex_Main "HOL-Library.Monad_Syntax"
begin

section \<open>Model predictive control on a fitted line: the data model\<close>

text \<open>
  The development embeds \<^verbatim>\<open>src/mpc_to_line/src/MPC.cpp\<close>.

  Conventions of the embedding.
  \<^item> A \<^verbatim>\<open>double\<close> (and CppAD's \<^verbatim>\<open>AD<double>\<close>) is a \<open>real\<close>: arithmetic is exact,
    rounding is not modelled.
  \<^item> A vector (\<^verbatim>\<open>Dvector\<close>, \<^verbatim>\<open>ADvector\<close>, \<^verbatim>\<open>Eigen::VectorXd\<close>, \<^verbatim>\<open>std::vector<double>\<close>)
    is a \<open>real list\<close>. Reading or writing an index outside the vector is undefined
    behaviour in C++; every access goes through \<open>rd\<close> or \<open>wr\<close>, which yield \<open>None\<close>
    there, so that an out-of-range access is a value of the model.
  \<^item> The counters (\<^verbatim>\<open>size_t\<close>, \<^verbatim>\<open>int\<close>) are natural numbers. The horizon length \<open>N\<close> is
    taken with \<open>2 \<le> N\<close>, where the unsigned \<^verbatim>\<open>N - 1\<close> and \<^verbatim>\<open>N - 2\<close> do not wrap;
    lemma \<open>counters_fit_int\<close> shows that every index stays below \<open>2 ^ 31\<close> for
    \<open>N \<le> 2 ^ 28\<close>, so the \<^verbatim>\<open>int\<close> loop counters do not overflow there.
  \<^item> The globals \<^verbatim>\<open>N\<close>, \<^verbatim>\<open>dt\<close>, \<^verbatim>\<open>ref_cte\<close>, \<^verbatim>\<open>ref_epsi\<close>, \<^verbatim>\<open>ref_v\<close> are the fields of
    a record that every function receives; \<open>shipped\<close> holds the values of the source.
\<close>

subsection \<open>Vectors and loops\<close>

definition rd :: "'a list \<Rightarrow> nat \<Rightarrow> 'a option" where
  "rd xs i = (if i < length xs then Some (xs ! i) else None)"

definition wr :: "'a list \<Rightarrow> nat \<Rightarrow> 'a \<Rightarrow> 'a list option" where
  "wr xs i v = (if i < length xs then Some (xs[i := v]) else None)"

text \<open>
  \<^verbatim>\<open>Dvector v(n)\<close> allocates \<open>n\<close> cells without initialising them; \<open>junk\<close> stands for
  whatever the memory held.
\<close>

definition Dvector :: "(nat \<Rightarrow> real) \<Rightarrow> nat \<Rightarrow> real list" where
  "Dvector junk n = map junk [0..<n]"

text \<open>\<^verbatim>\<open>for (int i = lo; i < hi; i++) body\<close>, the body updating a state that may fail.\<close>

function for_loop :: "nat \<Rightarrow> nat \<Rightarrow> (nat \<Rightarrow> 's \<Rightarrow> 's option) \<Rightarrow> 's \<Rightarrow> 's option" where
  "for_loop i hi body s =
     (if i < hi then (case body i s of None \<Rightarrow> None | Some s' \<Rightarrow> for_loop (Suc i) hi body s')
      else Some s)"
  by pat_completeness auto
termination
  by (relation "measure (\<lambda>(i, hi, body, s). hi - i)") auto

subsection \<open>Horizon configuration and block offsets\<close>

record config =
  N :: nat
  dt :: real
  ref_cte :: real
  ref_epsi :: real
  ref_v :: real

definition shipped :: config where
  "shipped = \<lparr> N = 25, dt = 5 / 100, ref_cte = 0, ref_epsi = 0, ref_v = 40 \<rparr>"

definition Lf :: real where
  "Lf = 267 / 100"

definition x_start :: "nat \<Rightarrow> nat" where
  "x_start n = 0"

definition y_start :: "nat \<Rightarrow> nat" where
  "y_start n = x_start n + n"

definition psi_start :: "nat \<Rightarrow> nat" where
  "psi_start n = y_start n + n"

definition v_start :: "nat \<Rightarrow> nat" where
  "v_start n = psi_start n + n"

definition cte_start :: "nat \<Rightarrow> nat" where
  "cte_start n = v_start n + n"

definition epsi_start :: "nat \<Rightarrow> nat" where
  "epsi_start n = cte_start n + n"

definition delta_start :: "nat \<Rightarrow> nat" where
  "delta_start n = epsi_start n + n"

definition a_start :: "nat \<Rightarrow> nat" where
  "a_start n = delta_start n + n - 1"

definition n_vars :: "nat \<Rightarrow> nat" where
  "n_vars n = n * 6 + (n - 1) * 2"

definition n_constraints :: "nat \<Rightarrow> nat" where
  "n_constraints n = n * 6"

section \<open>The trajectory evaluator \<^verbatim>\<open>FG_eval::operator()\<close>\<close>

text \<open>
  \<open>fg\<close> is the vector of the cost (index 0) and the constraints, \<open>vars\<close> the decision
  vector. Each definition below is one loop body of the source; \<^verbatim>\<open>fg[0] += e\<close> reads
  \<open>fg[0]\<close> and writes it back.
\<close>

definition add_cost :: "real list \<Rightarrow> real \<Rightarrow> real list option" where
  "add_cost fg e = do { c \<leftarrow> rd fg 0; wr fg 0 (c + e) }"

definition cost_reference :: "config \<Rightarrow> real list \<Rightarrow> nat \<Rightarrow> real list \<Rightarrow> real list option" where
  "cost_reference cfg vars i fg = do {
     cte \<leftarrow> rd vars (cte_start (N cfg) + i);
     fg \<leftarrow> add_cost fg ((cte - ref_cte cfg)\<^sup>2);
     epsi \<leftarrow> rd vars (epsi_start (N cfg) + i);
     fg \<leftarrow> add_cost fg ((epsi - ref_epsi cfg)\<^sup>2);
     v \<leftarrow> rd vars (v_start (N cfg) + i);
     add_cost fg ((v - ref_v cfg)\<^sup>2)
   }"

definition cost_actuators :: "config \<Rightarrow> real list \<Rightarrow> nat \<Rightarrow> real list \<Rightarrow> real list option" where
  "cost_actuators cfg vars i fg = do {
     delta \<leftarrow> rd vars (delta_start (N cfg) + i);
     fg \<leftarrow> add_cost fg (delta\<^sup>2);
     a \<leftarrow> rd vars (a_start (N cfg) + i);
     add_cost fg (a\<^sup>2)
   }"

definition cost_gap :: "config \<Rightarrow> real list \<Rightarrow> nat \<Rightarrow> real list \<Rightarrow> real list option" where
  "cost_gap cfg vars i fg = do {
     delta1 \<leftarrow> rd vars (delta_start (N cfg) + i + 1);
     delta0 \<leftarrow> rd vars (delta_start (N cfg) + i);
     fg \<leftarrow> add_cost fg ((delta1 - delta0)\<^sup>2);
     a1 \<leftarrow> rd vars (a_start (N cfg) + i + 1);
     a0 \<leftarrow> rd vars (a_start (N cfg) + i);
     add_cost fg ((a1 - a0)\<^sup>2)
   }"

text \<open>Lines 121 and 122: the fitted cubic and the arc tangent of its derivative.\<close>

definition f0_of :: "real list \<Rightarrow> real \<Rightarrow> real option" where
  "f0_of coeffs x0 = do {
     c0 \<leftarrow> rd coeffs 0;
     c1 \<leftarrow> rd coeffs 1;
     c2 \<leftarrow> rd coeffs 2;
     c3 \<leftarrow> rd coeffs 3;
     Some (c0 + c1 * x0 + c2 * x0\<^sup>2 + c3 * x0 ^ 3)
   }"

definition psides0_of :: "real list \<Rightarrow> real \<Rightarrow> real option" where
  "psides0_of coeffs x0 = do {
     c1 \<leftarrow> rd coeffs 1;
     c2 \<leftarrow> rd coeffs 2;
     c3 \<leftarrow> rd coeffs 3;
     Some (arctan (c1 + 2 * c2 * x0 + 3 * c3 * x0\<^sup>2))
   }"

definition constraint_step ::
  "config \<Rightarrow> real list \<Rightarrow> real list \<Rightarrow> nat \<Rightarrow> real list \<Rightarrow> real list option" where
  "constraint_step cfg coeffs vars i fg = do {
     x1 \<leftarrow> rd vars (x_start (N cfg) + i + 1);
     y1 \<leftarrow> rd vars (y_start (N cfg) + i + 1);
     psi1 \<leftarrow> rd vars (psi_start (N cfg) + i + 1);
     v1 \<leftarrow> rd vars (v_start (N cfg) + i + 1);
     cte1 \<leftarrow> rd vars (cte_start (N cfg) + i + 1);
     epsi1 \<leftarrow> rd vars (epsi_start (N cfg) + i + 1);
     x0 \<leftarrow> rd vars (x_start (N cfg) + i);
     y0 \<leftarrow> rd vars (y_start (N cfg) + i);
     psi0 \<leftarrow> rd vars (psi_start (N cfg) + i);
     v0 \<leftarrow> rd vars (v_start (N cfg) + i);
     cte0 \<leftarrow> rd vars (cte_start (N cfg) + i);
     epsi0 \<leftarrow> rd vars (epsi_start (N cfg) + i);
     delta0 \<leftarrow> rd vars (delta_start (N cfg) + i);
     a0 \<leftarrow> rd vars (a_start (N cfg) + i);
     f0 \<leftarrow> f0_of coeffs x0;
     psides0 \<leftarrow> psides0_of coeffs x0;
     fg \<leftarrow> wr fg (2 + x_start (N cfg) + i) (x1 - (x0 + v0 * cos psi0 * dt cfg));
     fg \<leftarrow> wr fg (2 + y_start (N cfg) + i) (y1 - (y0 + v0 * sin psi0 * dt cfg));
     fg \<leftarrow> wr fg (2 + psi_start (N cfg) + i) (psi1 - (psi0 + v0 * delta0 / Lf * dt cfg));
     fg \<leftarrow> wr fg (2 + v_start (N cfg) + i) (v1 - (v0 + a0 * dt cfg));
     fg \<leftarrow> wr fg (2 + cte_start (N cfg) + i) (cte1 - ((f0 - y0) + (v0 * sin epsi0 * dt cfg)));
     wr fg (2 + epsi_start (N cfg) + i) (epsi1 - ((psi0 - psides0) + v0 * delta0 / Lf * dt cfg))
   }"

definition initial_constraints :: "config \<Rightarrow> real list \<Rightarrow> real list \<Rightarrow> real list option" where
  "initial_constraints cfg vars fg = do {
     x \<leftarrow> rd vars (x_start (N cfg));
     fg \<leftarrow> wr fg (1 + x_start (N cfg)) x;
     y \<leftarrow> rd vars (y_start (N cfg));
     fg \<leftarrow> wr fg (1 + y_start (N cfg)) y;
     psi \<leftarrow> rd vars (psi_start (N cfg));
     fg \<leftarrow> wr fg (1 + psi_start (N cfg)) psi;
     v \<leftarrow> rd vars (v_start (N cfg));
     fg \<leftarrow> wr fg (1 + v_start (N cfg)) v;
     cte \<leftarrow> rd vars (cte_start (N cfg));
     fg \<leftarrow> wr fg (1 + cte_start (N cfg)) cte;
     epsi \<leftarrow> rd vars (epsi_start (N cfg));
     wr fg (1 + epsi_start (N cfg)) epsi
   }"

definition FG_cost :: "config \<Rightarrow> real list \<Rightarrow> real list \<Rightarrow> real list option" where
  "FG_cost cfg vars fg = do {
     fg \<leftarrow> wr fg 0 0;
     fg \<leftarrow> for_loop 0 (N cfg) (cost_reference cfg vars) fg;
     fg \<leftarrow> for_loop 0 (N cfg - 1) (cost_actuators cfg vars) fg;
     for_loop 0 (N cfg - 2) (cost_gap cfg vars) fg
   }"

definition FG_eval :: "config \<Rightarrow> real list \<Rightarrow> real list \<Rightarrow> real list \<Rightarrow> real list option" where
  "FG_eval cfg coeffs fg vars = do {
     fg \<leftarrow> FG_cost cfg vars fg;
     fg \<leftarrow> initial_constraints cfg vars fg;
     for_loop 0 (N cfg - 1) (constraint_step cfg coeffs vars) fg
   }"

section \<open>The controller \<^verbatim>\<open>MPC::Solve\<close>\<close>

subsection \<open>The external solver\<close>

text \<open>
  \<^verbatim>\<open>CppAD::ipopt::solve\<close> is a collaborator outside the repository and a parameter of
  the model. \<open>status_type\<close> lists the enumerators of the library's
  \<^verbatim>\<open>solve_result<Dvector>::status_type\<close>; the source tests for \<open>success\<close> only. Of the
  fields of \<^verbatim>\<open>solve_result\<close> the record keeps the three that the source reads; the field
  \<^verbatim>\<open>x\<close> is named \<open>solution_x\<close>.
\<close>

datatype status_type =
    not_defined
  | success
  | maxiter_exceeded
  | stop_at_tiny_step
  | stop_at_acceptable_point
  | local_infeasibility
  | user_requested_stop
  | feasible_point_found
  | diverging_iterates
  | restoration_failure
  | error_in_step_computation
  | invalid_number_detected
  | too_few_degrees_of_freedom
  | internal_error
  | unknown

record solve_result =
  status :: status_type
  solution_x :: "real list"
  obj_value :: real

type_synonym fg_evaluator = "real list \<Rightarrow> real list \<Rightarrow> real list option"

type_synonym solver =
  "string \<Rightarrow> real list \<Rightarrow> real list \<Rightarrow> real list \<Rightarrow> real list \<Rightarrow> real list
     \<Rightarrow> fg_evaluator \<Rightarrow> solve_result"

subsection \<open>How a call ends\<close>

text \<open>
  A C++ call returns a value, or ends the process through \<^verbatim>\<open>exit\<close> or a failed
  \<^verbatim>\<open>assert\<close>, or runs into undefined behaviour (here: an index out of range). The
  source throws no exception and has no error return value. \<^verbatim>\<open>EXIT_FAILURE\<close> comes from
  the C library; it is 1 on the usual platforms.
\<close>

datatype 'a outcome =
    Returned 'a
  | Exited int
  | Assertion_failed
  | Out_of_range

definition EXIT_FAILURE :: int where
  "EXIT_FAILURE = 1"

subsection \<open>Setting up the problem\<close>

text \<open>Lines 157 to 162: the six components of the input state.\<close>

definition read_state :: "real list \<Rightarrow> (real \<times> real \<times> real \<times> real \<times> real \<times> real) option" where
  "read_state x0 = do {
     x \<leftarrow> rd x0 0;
     y \<leftarrow> rd x0 1;
     psi \<leftarrow> rd x0 2;
     v \<leftarrow> rd x0 3;
     cte \<leftarrow> rd x0 4;
     epsi \<leftarrow> rd x0 5;
     Some (x, y, psi, v, cte, epsi)
   }"

text \<open>Lines 172 to 182: the initial value of the decision vector.\<close>

definition initial_vars ::
  "config \<Rightarrow> (nat \<Rightarrow> real) \<Rightarrow> real \<times> real \<times> real \<times> real \<times> real \<times> real \<Rightarrow> real list option" where
  "initial_vars cfg junk st = (case st of (x, y, psi, v, cte, epsi) \<Rightarrow> do {
     let vars = Dvector junk (n_vars (N cfg));
     vars \<leftarrow> for_loop 0 (n_vars (N cfg)) (\<lambda>i vars. wr vars i 0) vars;
     vars \<leftarrow> wr vars (x_start (N cfg)) x;
     vars \<leftarrow> wr vars (y_start (N cfg)) y;
     vars \<leftarrow> wr vars (psi_start (N cfg)) psi;
     vars \<leftarrow> wr vars (v_start (N cfg)) v;
     vars \<leftarrow> wr vars (cte_start (N cfg)) cte;
     wr vars (epsi_start (N cfg)) epsi
   })"

text \<open>Lines 185 to 208: the lower and upper limits of the variables.\<close>

definition set_bounds :: "real \<Rightarrow> real \<Rightarrow> nat \<Rightarrow> real list \<times> real list \<Rightarrow> (real list \<times> real list) option" where
  "set_bounds lo hi i b = (case b of (lower, upper) \<Rightarrow> do {
     lower \<leftarrow> wr lower i lo;
     upper \<leftarrow> wr upper i hi;
     Some (lower, upper)
   })"

definition vars_bounds ::
  "config \<Rightarrow> (nat \<Rightarrow> real) \<Rightarrow> (nat \<Rightarrow> real) \<Rightarrow> (real list \<times> real list) option" where
  "vars_bounds cfg junk_l junk_u = do {
     let vars_lowerbound = Dvector junk_l (n_vars (N cfg));
     let vars_upperbound = Dvector junk_u (n_vars (N cfg));
     b \<leftarrow> for_loop 0 (delta_start (N cfg)) (set_bounds (- (10 ^ 19)) (10 ^ 19))
            (vars_lowerbound, vars_upperbound);
     b \<leftarrow> for_loop (delta_start (N cfg)) (a_start (N cfg))
            (set_bounds (- (436332 / 1000000)) (436332 / 1000000)) b;
     for_loop (a_start (N cfg)) (n_vars (N cfg)) (set_bounds (- 1) 1) b
   }"

text \<open>Lines 213 to 231: the lower and upper limits of the constraints.\<close>

definition pin_state ::
  "config \<Rightarrow> real \<times> real \<times> real \<times> real \<times> real \<times> real \<Rightarrow> real list \<Rightarrow> real list option" where
  "pin_state cfg st bound = (case st of (x, y, psi, v, cte, epsi) \<Rightarrow> do {
     bound \<leftarrow> wr bound (x_start (N cfg)) x;
     bound \<leftarrow> wr bound (y_start (N cfg)) y;
     bound \<leftarrow> wr bound (psi_start (N cfg)) psi;
     bound \<leftarrow> wr bound (v_start (N cfg)) v;
     bound \<leftarrow> wr bound (cte_start (N cfg)) cte;
     wr bound (epsi_start (N cfg)) epsi
   })"

definition constraints_bounds ::
  "config \<Rightarrow> (nat \<Rightarrow> real) \<Rightarrow> (nat \<Rightarrow> real) \<Rightarrow> real \<times> real \<times> real \<times> real \<times> real \<times> real
     \<Rightarrow> (real list \<times> real list) option" where
  "constraints_bounds cfg junk_l junk_u st = do {
     let constraints_lowerbound = Dvector junk_l (n_constraints (N cfg));
     let constraints_upperbound = Dvector junk_u (n_constraints (N cfg));
     (constraints_lowerbound, constraints_upperbound) \<leftarrow>
       for_loop 0 (n_constraints (N cfg)) (set_bounds 0 0)
         (constraints_lowerbound, constraints_upperbound);
     constraints_lowerbound \<leftarrow> pin_state cfg st constraints_lowerbound;
     constraints_upperbound \<leftarrow> pin_state cfg st constraints_upperbound;
     Some (constraints_lowerbound, constraints_upperbound)
   }"

record problem =
  vars0 :: "real list"
  vars_lowerbound :: "real list"
  vars_upperbound :: "real list"
  constraints_lowerbound :: "real list"
  constraints_upperbound :: "real list"

text \<open>
  Lines 157 to 231 together. \<open>junk k\<close> is the uninitialised content of the \<open>k\<close>-th vector
  that the function allocates.
\<close>

definition Solve_setup :: "config \<Rightarrow> (nat \<Rightarrow> nat \<Rightarrow> real) \<Rightarrow> real list \<Rightarrow> problem option" where
  "Solve_setup cfg junk x0 = do {
     st \<leftarrow> read_state x0;
     vars \<leftarrow> initial_vars cfg (junk 0) st;
     (vl, vu) \<leftarrow> vars_bounds cfg (junk 1) (junk 2);
     (cl, cu) \<leftarrow> constraints_bounds cfg (junk 3) (junk 4) st;
     Some \<lparr> vars0 = vars, vars_lowerbound = vl, vars_upperbound = vu,
            constraints_lowerbound = cl, constraints_upperbound = cu \<rparr>
   }"

subsection \<open>Calling the solver and reading the solution back\<close>

definition options :: string where
  "options =
     ''Integer print_level  0'' @ [CHR 0x0A] @
     ''Sparse  true        forward'' @ [CHR 0x0A] @
     ''Sparse  true        reverse'' @ [CHR 0x0A] @
     ''Numeric max_cpu_time          0.5'' @ [CHR 0x0A]"

text \<open>Lines 259 to 262: the x and y blocks of the solution are appended to the caller's vectors.\<close>

definition push_trajectory ::
  "config \<Rightarrow> real list \<Rightarrow> nat \<Rightarrow> real list \<times> real list \<Rightarrow> (real list \<times> real list) option" where
  "push_trajectory cfg sx i m = (case m of (mpc_x, mpc_y) \<Rightarrow> do {
     px \<leftarrow> rd sx (x_start (N cfg) + i);
     py \<leftarrow> rd sx (y_start (N cfg) + i);
     Some (mpc_x @ [px], mpc_y @ [py])
   })"

text \<open>Lines 267 to 271: the vector that is returned.\<close>

definition read_back :: "config \<Rightarrow> real list \<Rightarrow> real \<Rightarrow> real list option" where
  "read_back cfg sx cost = do {
     x1 \<leftarrow> rd sx (x_start (N cfg) + 1);
     y1 \<leftarrow> rd sx (y_start (N cfg) + 1);
     psi1 \<leftarrow> rd sx (psi_start (N cfg) + 1);
     v1 \<leftarrow> rd sx (v_start (N cfg) + 1);
     cte1 \<leftarrow> rd sx (cte_start (N cfg) + 1);
     epsi1 \<leftarrow> rd sx (epsi_start (N cfg) + 1);
     delta \<leftarrow> rd sx (delta_start (N cfg));
     a \<leftarrow> rd sx (a_start (N cfg));
     Some [x1, y1, psi1, v1, cte1, epsi1, delta, a, cost]
   }"

text \<open>
  The result of \<open>Solve\<close> is the returned vector together with the new contents of the
  reference parameters \<^verbatim>\<open>mpc_x\<close> and \<^verbatim>\<open>mpc_y\<close>. The text written to \<^verbatim>\<open>std::cout\<close> is not
  modelled.
\<close>

definition Solve ::
  "config \<Rightarrow> (nat \<Rightarrow> nat \<Rightarrow> real) \<Rightarrow> solver \<Rightarrow> real list \<Rightarrow> real list \<Rightarrow> real list \<Rightarrow> real list
     \<Rightarrow> (real list \<times> real list \<times> real list) outcome" where
  "Solve cfg junk solve x0 coeffs mpc_x mpc_y =
     (case Solve_setup cfg junk x0 of
        None \<Rightarrow> Out_of_range
      | Some p \<Rightarrow>
          let solution = solve options (vars0 p) (vars_lowerbound p) (vars_upperbound p)
                           (constraints_lowerbound p) (constraints_upperbound p)
                           (FG_eval cfg coeffs);
              ok = (True \<and> status solution = success);
              cost = obj_value solution
          in (case for_loop 0 (N cfg) (push_trajectory cfg (solution_x solution)) (mpc_x, mpc_y) of
                None \<Rightarrow> Out_of_range
              | Some (mpc_x', mpc_y') \<Rightarrow>
                  if \<not> ok then Exited EXIT_FAILURE
                  else (case read_back cfg (solution_x solution) cost of
                          None \<Rightarrow> Out_of_range
                        | Some r \<Rightarrow> Returned (r, mpc_x', mpc_y'))))"

section \<open>Fitting the polynomial: \<^verbatim>\<open>polyfit\<close>\<close>

text \<open>
  The matrix is a list of rows. \<^verbatim>\<open>A.householderQr().solve(yvals)\<close> belongs to the
  linear-algebra library and is the parameter \<open>qr_solve\<close>. The two \<^verbatim>\<open>assert\<close>s are taken
  as compiled in (no \<^verbatim>\<open>NDEBUG\<close>); a failed one aborts the process. \<^verbatim>\<open>order\<close> is an
  \<^verbatim>\<open>int\<close> and \<^verbatim>\<open>xvals.size()\<close> a signed index, so \<^verbatim>\<open>xvals.size() - 1\<close> is \<open>-1\<close> for
  an empty vector.
\<close>

definition MatrixXd :: "(nat \<Rightarrow> nat \<Rightarrow> real) \<Rightarrow> nat \<Rightarrow> nat \<Rightarrow> real list list" where
  "MatrixXd junk rows cols = map (\<lambda>r. map (junk r) [0..<cols]) [0..<rows]"

definition mat_rd :: "real list list \<Rightarrow> nat \<Rightarrow> nat \<Rightarrow> real option" where
  "mat_rd A r c = do { row \<leftarrow> rd A r; rd row c }"

definition mat_wr :: "real list list \<Rightarrow> nat \<Rightarrow> nat \<Rightarrow> real \<Rightarrow> real list list option" where
  "mat_wr A r c v = do { row \<leftarrow> rd A r; row' \<leftarrow> wr row c v; wr A r row' }"

definition power_step :: "real list \<Rightarrow> nat \<Rightarrow> nat \<Rightarrow> real list list \<Rightarrow> real list list option" where
  "power_step xvals j i A = do {
     a \<leftarrow> mat_rd A j i;
     xj \<leftarrow> rd xvals j;
     mat_wr A j (i + 1) (a * xj)
   }"

definition vandermonde ::
  "(nat \<Rightarrow> nat \<Rightarrow> real) \<Rightarrow> real list \<Rightarrow> int \<Rightarrow> real list list option" where
  "vandermonde junk xvals order = do {
     let A = MatrixXd junk (length xvals) (nat (order + 1));
     A \<leftarrow> for_loop 0 (length xvals) (\<lambda>i A. mat_wr A i 0 1) A;
     for_loop 0 (length xvals) (\<lambda>j A. for_loop 0 (nat order) (power_step xvals j) A) A
   }"

definition polyfit ::
  "(real list list \<Rightarrow> real list \<Rightarrow> real list) \<Rightarrow> (nat \<Rightarrow> nat \<Rightarrow> real) \<Rightarrow> real list \<Rightarrow> real list
     \<Rightarrow> int \<Rightarrow> real list outcome" where
  "polyfit qr_solve junk xvals yvals order =
     (if \<not> (int (length xvals) = int (length yvals)) then Assertion_failed
      else if \<not> (order \<ge> 1 \<and> order \<le> int (length xvals) - 1) then Assertion_failed
      else (case vandermonde junk xvals order of
              None \<Rightarrow> Out_of_range
            | Some A \<Rightarrow> Returned (qr_solve A yvals)))"

section \<open>Map to vehicle coordinates: \<^verbatim>\<open>transform_map_coord\<close>\<close>

definition transform_point ::
  "real list \<Rightarrow> real list \<Rightarrow> real \<Rightarrow> real \<Rightarrow> real \<Rightarrow> nat \<Rightarrow> real list \<times> real list
     \<Rightarrow> (real list \<times> real list) option" where
  "transform_point xvals yvals vehicle_x vehicle_y vehicle_theta i t =
     (case t of (transformed_x, transformed_y) \<Rightarrow> do {
        let cos_theta = cos (vehicle_theta - pi / 2);
        let sin_theta = sin (vehicle_theta - pi / 2);
        xi \<leftarrow> rd xvals i;
        yi \<leftarrow> rd yvals i;
        let new_x = - (xi - vehicle_x) * sin_theta + (yi - vehicle_y) * cos_theta;
        let new_y = - (xi - vehicle_x) * cos_theta - (yi - vehicle_y) * sin_theta;
        Some (transformed_x @ [new_x], transformed_y @ [new_y])
      })"

text \<open>The result is the new content of the reference parameters \<^verbatim>\<open>xvals\<close> and \<^verbatim>\<open>yvals\<close>.\<close>

definition transform_map_coord ::
  "real list \<Rightarrow> real list \<Rightarrow> real \<Rightarrow> real \<Rightarrow> real \<Rightarrow> (real list \<times> real list) option" where
  "transform_map_coord xvals yvals vehicle_x vehicle_y vehicle_theta = do {
     let total_size = length xvals;
     for_loop 0 total_size (transform_point xvals yvals vehicle_x vehicle_y vehicle_theta) ([], [])
   }"

text \<open>
  The source has no inverse of the transform. The one below is written from the
  specification's words, \<open>the inverse rotation and translation\<close>: the transposed rotation
  matrix, then the vehicle position added back.
\<close>

definition spec_inverse_point :: "real \<Rightarrow> real \<Rightarrow> real \<Rightarrow> real \<times> real \<Rightarrow> real \<times> real" where
  "spec_inverse_point vehicle_x vehicle_y vehicle_theta p = (case p of (new_x, new_y) \<Rightarrow>
     let cos_theta = cos (vehicle_theta - pi / 2);
         sin_theta = sin (vehicle_theta - pi / 2)
     in (- new_x * sin_theta - new_y * cos_theta + vehicle_x,
         new_x * cos_theta - new_y * sin_theta + vehicle_y))"

section \<open>A short horizon for concrete runs\<close>

text \<open>
  Three time steps instead of the 25 of the source, all other parameters as shipped, and
  a decision vector of the matching length \<open>6 * 3 + 2 * 2 = 22\<close>: the blocks are
  x, y, psi, v, cte, epsi (three entries each), then delta and a (two entries each).
\<close>

definition horizon3 :: config where
  "horizon3 = shipped \<lparr> N := 3 \<rparr>"

definition vars3 :: "real list" where
  "vars3 = [0, 1, 4,  0, 0, 0,  0, 0, 0,  40, 40, 40,  1, 2, 3,  0, 0, 0,  1, 2,  3, 5]"

text \<open>
  An input state and a stand-in for the external solver that ignores the problem and
  reports a fixed status, solution vector and objective value.
\<close>

definition state0 :: "real list" where
  "state0 = [0, 0, 0, 10, 1, 0]"

definition solution3 :: "real list" where
  "solution3 = [0, 1, 2,  3, 4, 5,  6, 7, 8,  9, 10, 11,  12, 13, 14,  15, 16, 17,  18, 19,  20, 21]"

definition fixed_solver :: "status_type \<Rightarrow> real list \<Rightarrow> real \<Rightarrow> solver" where
  "fixed_solver st sx c = (\<lambda>opts xi xl xu gl gu fg_eval. \<lparr> status = st, solution_x = sx, obj_value = c \<rparr>)"

section \<open>Basic facts\<close>

lemmas starts_defs =
  x_start_def y_start_def psi_start_def v_start_def cte_start_def epsi_start_def
  delta_start_def a_start_def

declare for_loop.simps [simp del]

lemma rd_Some [simp]: "i < length xs \<Longrightarrow> rd xs i = Some (xs ! i)"
  by (simp add: rd_def)

lemma rd_None [simp]: "\<not> i < length xs \<Longrightarrow> rd xs i = None"
  by (simp add: rd_def)

lemma wr_Some [simp]: "i < length xs \<Longrightarrow> wr xs i v = Some (xs[i := v])"
  by (simp add: wr_def)

lemma wr_None [simp]: "\<not> i < length xs \<Longrightarrow> wr xs i v = None"
  by (simp add: wr_def)

lemma length_Dvector [simp]: "length (Dvector junk n) = n"
  by (simp add: Dvector_def)

lemma for_loop_done: "\<not> i < hi \<Longrightarrow> for_loop i hi body s = Some s"
  by (simp add: for_loop.simps)

lemma for_loop_step:
  "i < hi \<Longrightarrow> for_loop i hi body s = (case body i s of None \<Rightarrow> None | Some s' \<Rightarrow> for_loop (Suc i) hi body s')"
  by (subst for_loop.simps) simp

lemma for_loop_invariant:
  assumes "P lo s" and "lo \<le> hi"
    and "\<And>i t. lo \<le> i \<Longrightarrow> i < hi \<Longrightarrow> P i t \<Longrightarrow> \<exists>t'. body i t = Some t' \<and> P (Suc i) t'"
  shows "\<exists>s'. for_loop lo hi body s = Some s' \<and> P hi s'"
proof -
  have "i \<le> hi \<Longrightarrow> lo \<le> i \<Longrightarrow> P i t \<Longrightarrow> \<exists>s'. for_loop i hi body t = Some s' \<and> P hi s'" for i t
  proof (induction "hi - i" arbitrary: i t)
    case 0
    then have "i = hi" by simp
    with 0 show ?case by (simp add: for_loop_done)
  next
    case (Suc d)
    then have lt: "i < hi" by simp
    from assms(3)[OF Suc.prems(2) lt Suc.prems(3)]
    obtain t' where t': "body i t = Some t'" "P (Suc i) t'" by blast
    have "\<exists>s'. for_loop (Suc i) hi body t' = Some s' \<and> P hi s'"
      using Suc.hyps(1)[of "Suc i" t'] Suc.hyps(2) lt Suc.prems(2) t'(2) by simp
    then show ?case using lt t'(1) by (simp add: for_loop_step)
  qed
  from this[of lo s] assms(1,2) show ?thesis by simp
qed

lemma for_loop_cong:
  assumes "\<And>i t. lo \<le> i \<Longrightarrow> i < hi \<Longrightarrow> body i t = body' i t"
  shows "for_loop lo hi body s = for_loop lo hi body' s"
  using assms
proof (induction lo hi body s rule: for_loop.induct)
  case (1 i hi body s)
  show ?case
  proof (cases "i < hi")
    case True
    have b: "body i s = body' i s" using 1(2)[of i s] True by simp
    show ?thesis
    proof (cases "body i s")
      case None
      then show ?thesis using True b by (simp add: for_loop_step)
    next
      case (Some s')
      have IH: "for_loop (Suc i) hi body s' = for_loop (Suc i) hi body' s'"
        using 1(1)[OF True Some] 1(2) by simp
      have L: "for_loop i hi body s = for_loop (Suc i) hi body s'"
        using True Some by (simp add: for_loop_step)
      have "body' i s = Some s'" using b Some by simp
      then have R: "for_loop i hi body' s = for_loop (Suc i) hi body' s'"
        using True by (simp add: for_loop_step)
      show ?thesis using L R IH by simp
    qed
  next
    case False
    then show ?thesis by (simp add: for_loop_done)
  qed
qed

lemma for_loop_first_None:
  "lo < hi \<Longrightarrow> body lo s = None \<Longrightarrow> for_loop lo hi body s = None"
  by (simp add: for_loop_step)

section \<open>The evaluator in closed form\<close>

subsection \<open>The cost loops\<close>

lemma for_loop_accumulate:
  assumes body: "\<And>i t. lo \<le> i \<Longrightarrow> i < hi \<Longrightarrow> 0 < length t \<Longrightarrow> body i t = Some (t[0 := t ! 0 + g i])"
    and len: "0 < length fg" and le: "lo \<le> hi"
  shows "for_loop lo hi body fg = Some (fg[0 := fg ! 0 + (\<Sum>i = lo..<hi. g i)])"
proof -
  let ?P = "\<lambda>i t. t = fg[0 := fg ! 0 + (\<Sum>k = lo..<i. g k)]"
  have "\<exists>s'. for_loop lo hi body fg = Some s' \<and> ?P hi s'"
  proof (rule for_loop_invariant [where P = ?P])
    show "?P lo fg" by simp
    show "lo \<le> hi" by (rule le)
  next
    fix i t
    assume i: "lo \<le> i" "i < hi" and t: "?P i t"
    have "0 < length t" using t len by simp
    then have "body i t = Some (t[0 := t ! 0 + g i])" using body i by simp
    moreover have "t[0 := t ! 0 + g i] = fg[0 := fg ! 0 + (\<Sum>k = lo..<Suc i. g k)]"
      using t len i by (simp add: add.assoc)
    ultimately show "\<exists>t'. body i t = Some t' \<and> ?P (Suc i) t'" by simp
  qed
  then show ?thesis by auto
qed

lemma add_cost_eq [simp]: "0 < length fg \<Longrightarrow> add_cost fg e = Some (fg[0 := fg ! 0 + e])"
  by (simp add: add_cost_def)

lemma cost_reference_eq:
  assumes "1 \<le> N cfg" "length vars = n_vars (N cfg)" "i < N cfg" "0 < length fg"
  shows "cost_reference cfg vars i fg = Some (fg[0 := fg ! 0 +
           ((vars ! (cte_start (N cfg) + i) - ref_cte cfg)\<^sup>2
            + (vars ! (epsi_start (N cfg) + i) - ref_epsi cfg)\<^sup>2
            + (vars ! (v_start (N cfg) + i) - ref_v cfg)\<^sup>2)])"
  using assms by (simp add: cost_reference_def starts_defs n_vars_def add.assoc)

lemma cost_actuators_eq:
  assumes "1 \<le> N cfg" "length vars = n_vars (N cfg)" "i < N cfg - 1" "0 < length fg"
  shows "cost_actuators cfg vars i fg = Some (fg[0 := fg ! 0 +
           ((vars ! (delta_start (N cfg) + i))\<^sup>2 + (vars ! (a_start (N cfg) + i))\<^sup>2)])"
  using assms by (simp add: cost_actuators_def starts_defs n_vars_def add.assoc)

lemma cost_gap_eq:
  assumes "2 \<le> N cfg" "length vars = n_vars (N cfg)" "i < N cfg - 2" "0 < length fg"
  shows "cost_gap cfg vars i fg = Some (fg[0 := fg ! 0 +
           ((vars ! (delta_start (N cfg) + i + 1) - vars ! (delta_start (N cfg) + i))\<^sup>2
            + (vars ! (a_start (N cfg) + i + 1) - vars ! (a_start (N cfg) + i))\<^sup>2)])"
  using assms by (simp add: cost_gap_def starts_defs n_vars_def add.assoc)

lemma FG_cost_eq:
  assumes n: "2 \<le> N cfg" and lv: "length vars = n_vars (N cfg)" and lf: "0 < length fg"
  shows "FG_cost cfg vars fg = Some (fg[0 :=
     (\<Sum>i = 0..<N cfg. (vars ! (cte_start (N cfg) + i) - ref_cte cfg)\<^sup>2
            + (vars ! (epsi_start (N cfg) + i) - ref_epsi cfg)\<^sup>2
            + (vars ! (v_start (N cfg) + i) - ref_v cfg)\<^sup>2)
   + (\<Sum>i = 0..<N cfg - 1. (vars ! (delta_start (N cfg) + i))\<^sup>2 + (vars ! (a_start (N cfg) + i))\<^sup>2)
   + (\<Sum>i = 0..<N cfg - 2. (vars ! (delta_start (N cfg) + i + 1) - vars ! (delta_start (N cfg) + i))\<^sup>2
            + (vars ! (a_start (N cfg) + i + 1) - vars ! (a_start (N cfg) + i))\<^sup>2)])"
proof -
  have n1: "1 \<le> N cfg" using n by simp
  have l1: "for_loop 0 (N cfg) (cost_reference cfg vars) t = Some (t[0 := t ! 0 +
     (\<Sum>i = 0..<N cfg. (vars ! (cte_start (N cfg) + i) - ref_cte cfg)\<^sup>2
            + (vars ! (epsi_start (N cfg) + i) - ref_epsi cfg)\<^sup>2
            + (vars ! (v_start (N cfg) + i) - ref_v cfg)\<^sup>2)])" if "0 < length t" for t
    using that by (intro for_loop_accumulate) (simp_all add: cost_reference_eq [OF n1 lv])
  have l2: "for_loop 0 (N cfg - 1) (cost_actuators cfg vars) t = Some (t[0 := t ! 0 +
     (\<Sum>i = 0..<N cfg - 1. (vars ! (delta_start (N cfg) + i))\<^sup>2 + (vars ! (a_start (N cfg) + i))\<^sup>2)])"
    if "0 < length t" for t
    using that by (intro for_loop_accumulate) (simp_all add: cost_actuators_eq [OF n1 lv])
  have l3: "for_loop 0 (N cfg - 2) (cost_gap cfg vars) t = Some (t[0 := t ! 0 +
     (\<Sum>i = 0..<N cfg - 2. (vars ! (delta_start (N cfg) + i + 1) - vars ! (delta_start (N cfg) + i))\<^sup>2
            + (vars ! (a_start (N cfg) + i + 1) - vars ! (a_start (N cfg) + i))\<^sup>2)])"
    if "0 < length t" for t
    using that by (intro for_loop_accumulate) (simp_all add: cost_gap_eq [OF n lv])
  show ?thesis
    using lf by (simp add: FG_cost_def l1 l2 l3 del: One_nat_def)
qed

subsection \<open>One step of the constraint loop\<close>

lemma f0_of_eq:
  "4 \<le> length coeffs \<Longrightarrow>
   f0_of coeffs x0 = Some (coeffs ! 0 + coeffs ! 1 * x0 + coeffs ! 2 * x0\<^sup>2 + coeffs ! 3 * x0 ^ 3)"
  by (auto simp: f0_of_def rd_def)

lemma psides0_of_eq:
  "4 \<le> length coeffs \<Longrightarrow>
   psides0_of coeffs x0 = Some (arctan (coeffs ! 1 + 2 * coeffs ! 2 * x0 + 3 * coeffs ! 3 * x0\<^sup>2))"
  by (auto simp: psides0_of_def rd_def)

lemma f0_of_None: "length coeffs < 4 \<Longrightarrow> f0_of coeffs x0 = None"
  by (simp add: f0_of_def rd_def)

lemma psides0_of_None: "length coeffs < 4 \<Longrightarrow> psides0_of coeffs x0 = None"
  by (simp add: psides0_of_def rd_def)

lemma initial_constraints_eq:
  assumes "1 \<le> N cfg" "length vars = n_vars (N cfg)" "length fg = 1 + n_constraints (N cfg)"
  shows "initial_constraints cfg vars fg = Some (fg
     [1 + x_start (N cfg) := vars ! x_start (N cfg),
      1 + y_start (N cfg) := vars ! y_start (N cfg),
      1 + psi_start (N cfg) := vars ! psi_start (N cfg),
      1 + v_start (N cfg) := vars ! v_start (N cfg),
      1 + cte_start (N cfg) := vars ! cte_start (N cfg),
      1 + epsi_start (N cfg) := vars ! epsi_start (N cfg)])"
  using assms
  by (simp add: initial_constraints_def starts_defs n_vars_def n_constraints_def)

lemma constraint_step_eq:
  assumes "2 \<le> N cfg" "length vars = n_vars (N cfg)" "length fg = 1 + n_constraints (N cfg)"
    "4 \<le> length coeffs" "i < N cfg - 1"
  shows "constraint_step cfg coeffs vars i fg = Some (fg
     [2 + x_start (N cfg) + i :=
        vars ! (x_start (N cfg) + i + 1)
        - (vars ! (x_start (N cfg) + i)
           + vars ! (v_start (N cfg) + i) * cos (vars ! (psi_start (N cfg) + i)) * dt cfg),
      2 + y_start (N cfg) + i :=
        vars ! (y_start (N cfg) + i + 1)
        - (vars ! (y_start (N cfg) + i)
           + vars ! (v_start (N cfg) + i) * sin (vars ! (psi_start (N cfg) + i)) * dt cfg),
      2 + psi_start (N cfg) + i :=
        vars ! (psi_start (N cfg) + i + 1)
        - (vars ! (psi_start (N cfg) + i)
           + vars ! (v_start (N cfg) + i) * vars ! (delta_start (N cfg) + i) / Lf * dt cfg),
      2 + v_start (N cfg) + i :=
        vars ! (v_start (N cfg) + i + 1)
        - (vars ! (v_start (N cfg) + i) + vars ! (a_start (N cfg) + i) * dt cfg),
      2 + cte_start (N cfg) + i :=
        vars ! (cte_start (N cfg) + i + 1)
        - (((coeffs ! 0 + coeffs ! 1 * vars ! (x_start (N cfg) + i)
              + coeffs ! 2 * (vars ! (x_start (N cfg) + i))\<^sup>2
              + coeffs ! 3 * vars ! (x_start (N cfg) + i) ^ 3)
            - vars ! (y_start (N cfg) + i))
           + vars ! (v_start (N cfg) + i) * sin (vars ! (epsi_start (N cfg) + i)) * dt cfg),
      2 + epsi_start (N cfg) + i :=
        vars ! (epsi_start (N cfg) + i + 1)
        - ((vars ! (psi_start (N cfg) + i)
            - arctan (coeffs ! 1 + 2 * coeffs ! 2 * vars ! (x_start (N cfg) + i)
                      + 3 * coeffs ! 3 * (vars ! (x_start (N cfg) + i))\<^sup>2))
           + vars ! (v_start (N cfg) + i) * vars ! (delta_start (N cfg) + i) / Lf * dt cfg)])"
proof -
  have r: "k < n_vars (N cfg) \<Longrightarrow> rd vars k = Some (vars ! k)" for k
    using assms(2) by simp
  have u: "k < length fg \<Longrightarrow> length t = length fg \<Longrightarrow> wr t k v = Some (t[k := v])" for k t v
    by simp
  have b: "x_start (N cfg) + i + 1 < n_vars (N cfg)" "y_start (N cfg) + i + 1 < n_vars (N cfg)"
    "psi_start (N cfg) + i + 1 < n_vars (N cfg)" "v_start (N cfg) + i + 1 < n_vars (N cfg)"
    "cte_start (N cfg) + i + 1 < n_vars (N cfg)" "epsi_start (N cfg) + i + 1 < n_vars (N cfg)"
    "x_start (N cfg) + i < n_vars (N cfg)" "y_start (N cfg) + i < n_vars (N cfg)"
    "psi_start (N cfg) + i < n_vars (N cfg)" "v_start (N cfg) + i < n_vars (N cfg)"
    "cte_start (N cfg) + i < n_vars (N cfg)" "epsi_start (N cfg) + i < n_vars (N cfg)"
    "delta_start (N cfg) + i < n_vars (N cfg)" "a_start (N cfg) + i < n_vars (N cfg)"
    using assms(1,5) by (simp_all add: starts_defs n_vars_def)
  have w: "2 + x_start (N cfg) + i < length fg" "2 + y_start (N cfg) + i < length fg"
    "2 + psi_start (N cfg) + i < length fg" "2 + v_start (N cfg) + i < length fg"
    "2 + cte_start (N cfg) + i < length fg" "2 + epsi_start (N cfg) + i < length fg"
    using assms(1,3,5) by (simp_all add: starts_defs n_constraints_def)
  show ?thesis
    by (simp only: constraint_step_def r [OF b(1)] r [OF b(2)] r [OF b(3)] r [OF b(4)]
        r [OF b(5)] r [OF b(6)] r [OF b(7)] r [OF b(8)] r [OF b(9)] r [OF b(10)] r [OF b(11)]
        r [OF b(12)] r [OF b(13)] r [OF b(14)] f0_of_eq [OF assms(4)] psides0_of_eq [OF assms(4)]
        Option.bind.simps u [OF w(1)] u [OF w(2)] u [OF w(3)] u [OF w(4)] u [OF w(5)] u [OF w(6)]
        length_list_update)
qed

subsection \<open>A loop that writes one entry of six blocks per step\<close>

lemma for_loop_six_blocks:
  fixes r1 r2 r3 r4 r5 r6 :: "nat \<Rightarrow> 'a"
  assumes body: "\<And>i t. i < hi \<Longrightarrow> length t = L \<Longrightarrow>
      body i t = Some (t[a1 + i := r1 i, a2 + i := r2 i, a3 + i := r3 i,
                         a4 + i := r4 i, a5 + i := r5 i, a6 + i := r6 i])"
    and sep: "a1 + hi \<le> a2" "a2 + hi \<le> a3" "a3 + hi \<le> a4" "a4 + hi \<le> a5" "a5 + hi \<le> a6"
      "a6 + hi \<le> L"
    and len: "length fg = L"
  shows "\<exists>fg'. for_loop 0 hi body fg = Some fg' \<and> length fg' = L \<and>
      (\<forall>i<hi. fg' ! (a1 + i) = r1 i \<and> fg' ! (a2 + i) = r2 i \<and> fg' ! (a3 + i) = r3 i \<and>
               fg' ! (a4 + i) = r4 i \<and> fg' ! (a5 + i) = r5 i \<and> fg' ! (a6 + i) = r6 i) \<and>
      (\<forall>k. (\<forall>i<hi. k \<noteq> a1 + i \<and> k \<noteq> a2 + i \<and> k \<noteq> a3 + i \<and> k \<noteq> a4 + i \<and> k \<noteq> a5 + i
                     \<and> k \<noteq> a6 + i) \<longrightarrow> fg' ! k = fg ! k)"
proof -
  let ?P = "\<lambda>m t. m \<le> hi \<and> length t = L \<and>
      (\<forall>i<m. t ! (a1 + i) = r1 i \<and> t ! (a2 + i) = r2 i \<and> t ! (a3 + i) = r3 i \<and>
               t ! (a4 + i) = r4 i \<and> t ! (a5 + i) = r5 i \<and> t ! (a6 + i) = r6 i) \<and>
      (\<forall>k. (\<forall>i<m. k \<noteq> a1 + i \<and> k \<noteq> a2 + i \<and> k \<noteq> a3 + i \<and> k \<noteq> a4 + i \<and> k \<noteq> a5 + i
                     \<and> k \<noteq> a6 + i) \<longrightarrow> t ! k = fg ! k)"
  have "\<exists>s'. for_loop 0 hi body fg = Some s' \<and> ?P hi s'"
  proof (rule for_loop_invariant [where P = ?P])
    show "?P 0 fg" using len by simp
    show "0 \<le> hi" by simp
  next
    fix m t
    assume m: "m < hi" and P: "?P m t"
    let ?t' = "t[a1 + m := r1 m, a2 + m := r2 m, a3 + m := r3 m,
                 a4 + m := r4 m, a5 + m := r5 m, a6 + m := r6 m]"
    from P have lt: "length t = L" by simp
    have b: "body m t = Some ?t'" using body [OF m lt] .
    have in_range: "a1 + m < L" "a2 + m < L" "a3 + m < L" "a4 + m < L" "a5 + m < L" "a6 + m < L"
      using sep m by simp_all
    have new: "?t' ! (a1 + m) = r1 m" "?t' ! (a2 + m) = r2 m" "?t' ! (a3 + m) = r3 m"
      "?t' ! (a4 + m) = r4 m" "?t' ! (a5 + m) = r5 m" "?t' ! (a6 + m) = r6 m"
      using sep m lt in_range by (simp_all add: nth_list_update)
    have old: "?t' ! k = t ! k"
      if "k \<noteq> a1 + m" "k \<noteq> a2 + m" "k \<noteq> a3 + m" "k \<noteq> a4 + m" "k \<noteq> a5 + m" "k \<noteq> a6 + m" for k
      using that by simp
    have blocks: "?t' ! (a1 + i) = r1 i \<and> ?t' ! (a2 + i) = r2 i \<and> ?t' ! (a3 + i) = r3 i \<and>
               ?t' ! (a4 + i) = r4 i \<and> ?t' ! (a5 + i) = r5 i \<and> ?t' ! (a6 + i) = r6 i"
      if "i < Suc m" for i
    proof (cases "i = m")
      case True
      then show ?thesis using new by simp
    next
      case False
      then have im: "i < m" using that by simp
      have "?t' ! (a1 + i) = t ! (a1 + i)" "?t' ! (a2 + i) = t ! (a2 + i)"
        "?t' ! (a3 + i) = t ! (a3 + i)" "?t' ! (a4 + i) = t ! (a4 + i)"
        "?t' ! (a5 + i) = t ! (a5 + i)" "?t' ! (a6 + i) = t ! (a6 + i)"
        using sep m im by (intro old; linarith)+
      then show ?thesis using P im by simp
    qed
    have rest: "?t' ! k = fg ! k"
      if "\<forall>i<Suc m. k \<noteq> a1 + i \<and> k \<noteq> a2 + i \<and> k \<noteq> a3 + i \<and> k \<noteq> a4 + i \<and> k \<noteq> a5 + i
                     \<and> k \<noteq> a6 + i" for k
    proof -
      have "?t' ! k = t ! k" using that by (intro old) auto
      moreover have "t ! k = fg ! k" using P that by auto
      ultimately show ?thesis by simp
    qed
    have "?P (Suc m) ?t'"
      using m lt blocks rest by simp
    then show "\<exists>t'. body m t = Some t' \<and> ?P (Suc m) t'"
      using b by blast
  qed
  then show ?thesis by blast
qed

subsection \<open>The constraint loop\<close>

lemma constraint_loop:
  assumes n: "2 \<le> N cfg" and lv: "length vars = n_vars (N cfg)"
    and lf: "length fg = 1 + n_constraints (N cfg)" and lc: "4 \<le> length coeffs"
  shows "\<exists>fg'. for_loop 0 (N cfg - 1) (constraint_step cfg coeffs vars) fg = Some fg' \<and>
     length fg' = 1 + n_constraints (N cfg) \<and>
     (\<forall>i<N cfg - 1.
        fg' ! (2 + x_start (N cfg) + i) =
          vars ! (x_start (N cfg) + i + 1)
          - (vars ! (x_start (N cfg) + i)
             + vars ! (v_start (N cfg) + i) * cos (vars ! (psi_start (N cfg) + i)) * dt cfg) \<and>
        fg' ! (2 + y_start (N cfg) + i) =
          vars ! (y_start (N cfg) + i + 1)
          - (vars ! (y_start (N cfg) + i)
             + vars ! (v_start (N cfg) + i) * sin (vars ! (psi_start (N cfg) + i)) * dt cfg) \<and>
        fg' ! (2 + psi_start (N cfg) + i) =
          vars ! (psi_start (N cfg) + i + 1)
          - (vars ! (psi_start (N cfg) + i)
             + vars ! (v_start (N cfg) + i) * vars ! (delta_start (N cfg) + i) / Lf * dt cfg) \<and>
        fg' ! (2 + v_start (N cfg) + i) =
          vars ! (v_start (N cfg) + i + 1)
          - (vars ! (v_start (N cfg) + i) + vars ! (a_start (N cfg) + i) * dt cfg) \<and>
        fg' ! (2 + cte_start (N cfg) + i) =
          vars ! (cte_start (N cfg) + i + 1)
          - (((coeffs ! 0 + coeffs ! 1 * vars ! (x_start (N cfg) + i)
                + coeffs ! 2 * (vars ! (x_start (N cfg) + i))\<^sup>2
                + coeffs ! 3 * vars ! (x_start (N cfg) + i) ^ 3)
              - vars ! (y_start (N cfg) + i))
             + vars ! (v_start (N cfg) + i) * sin (vars ! (epsi_start (N cfg) + i)) * dt cfg) \<and>
        fg' ! (2 + epsi_start (N cfg) + i) =
          vars ! (epsi_start (N cfg) + i + 1)
          - ((vars ! (psi_start (N cfg) + i)
              - arctan (coeffs ! 1 + 2 * coeffs ! 2 * vars ! (x_start (N cfg) + i)
                        + 3 * coeffs ! 3 * (vars ! (x_start (N cfg) + i))\<^sup>2))
             + vars ! (v_start (N cfg) + i) * vars ! (delta_start (N cfg) + i) / Lf * dt cfg)) \<and>
     (\<forall>k. (\<forall>i<N cfg - 1. k \<noteq> 2 + x_start (N cfg) + i \<and> k \<noteq> 2 + y_start (N cfg) + i \<and>
              k \<noteq> 2 + psi_start (N cfg) + i \<and> k \<noteq> 2 + v_start (N cfg) + i \<and>
              k \<noteq> 2 + cte_start (N cfg) + i \<and> k \<noteq> 2 + epsi_start (N cfg) + i)
          \<longrightarrow> fg' ! k = fg ! k)"
proof (rule for_loop_six_blocks)
  fix i and t :: "real list"
  assume "i < N cfg - 1" "length t = 1 + n_constraints (N cfg)"
  then show "constraint_step cfg coeffs vars i t = Some (t
     [2 + x_start (N cfg) + i :=
        vars ! (x_start (N cfg) + i + 1)
        - (vars ! (x_start (N cfg) + i)
           + vars ! (v_start (N cfg) + i) * cos (vars ! (psi_start (N cfg) + i)) * dt cfg),
      2 + y_start (N cfg) + i :=
        vars ! (y_start (N cfg) + i + 1)
        - (vars ! (y_start (N cfg) + i)
           + vars ! (v_start (N cfg) + i) * sin (vars ! (psi_start (N cfg) + i)) * dt cfg),
      2 + psi_start (N cfg) + i :=
        vars ! (psi_start (N cfg) + i + 1)
        - (vars ! (psi_start (N cfg) + i)
           + vars ! (v_start (N cfg) + i) * vars ! (delta_start (N cfg) + i) / Lf * dt cfg),
      2 + v_start (N cfg) + i :=
        vars ! (v_start (N cfg) + i + 1)
        - (vars ! (v_start (N cfg) + i) + vars ! (a_start (N cfg) + i) * dt cfg),
      2 + cte_start (N cfg) + i :=
        vars ! (cte_start (N cfg) + i + 1)
        - (((coeffs ! 0 + coeffs ! 1 * vars ! (x_start (N cfg) + i)
              + coeffs ! 2 * (vars ! (x_start (N cfg) + i))\<^sup>2
              + coeffs ! 3 * vars ! (x_start (N cfg) + i) ^ 3)
            - vars ! (y_start (N cfg) + i))
           + vars ! (v_start (N cfg) + i) * sin (vars ! (epsi_start (N cfg) + i)) * dt cfg),
      2 + epsi_start (N cfg) + i :=
        vars ! (epsi_start (N cfg) + i + 1)
        - ((vars ! (psi_start (N cfg) + i)
            - arctan (coeffs ! 1 + 2 * coeffs ! 2 * vars ! (x_start (N cfg) + i)
                      + 3 * coeffs ! 3 * (vars ! (x_start (N cfg) + i))\<^sup>2))
           + vars ! (v_start (N cfg) + i) * vars ! (delta_start (N cfg) + i) / Lf * dt cfg)])"
    by (intro constraint_step_eq n lv lc)
qed (use n lf in \<open>simp_all add: starts_defs n_constraints_def\<close>)

subsection \<open>The whole evaluator\<close>

lemma pinned_entries:
  fixes t :: "'a list" and a b c d e f :: 'a
  assumes "1 \<le> n" "length t = 1 + n_constraints n"
  defines "t' \<equiv> t[1 + x_start n := a, 1 + y_start n := b, 1 + psi_start n := c,
                     1 + v_start n := d, 1 + cte_start n := e, 1 + epsi_start n := f]"
  shows "t' ! (1 + x_start n) = a" "t' ! (1 + y_start n) = b" "t' ! (1 + psi_start n) = c"
    "t' ! (1 + v_start n) = d" "t' ! (1 + cte_start n) = e" "t' ! (1 + epsi_start n) = f"
    "t' ! 0 = t ! 0"
  using assms(1,2) unfolding t'_def
  by (simp_all add: starts_defs n_constraints_def nth_list_update)

lemma FG_eval_closed_form:
  assumes n: "2 \<le> N cfg" and lv: "length vars = n_vars (N cfg)"
    and lf: "length fg = 1 + n_constraints (N cfg)" and lc: "4 \<le> length coeffs"
  shows "\<exists>fg'. FG_eval cfg coeffs fg vars = Some fg' \<and>
     length fg' = 1 + n_constraints (N cfg) \<and>
     fg' ! 0 = (\<Sum>i = 0..<N cfg. (vars ! (cte_start (N cfg) + i) - ref_cte cfg)\<^sup>2
            + (vars ! (epsi_start (N cfg) + i) - ref_epsi cfg)\<^sup>2
            + (vars ! (v_start (N cfg) + i) - ref_v cfg)\<^sup>2)
   + (\<Sum>i = 0..<N cfg - 1. (vars ! (delta_start (N cfg) + i))\<^sup>2 + (vars ! (a_start (N cfg) + i))\<^sup>2)
   + (\<Sum>i = 0..<N cfg - 2. (vars ! (delta_start (N cfg) + i + 1) - vars ! (delta_start (N cfg) + i))\<^sup>2
            + (vars ! (a_start (N cfg) + i + 1) - vars ! (a_start (N cfg) + i))\<^sup>2) \<and>
     (fg' ! (1 + x_start (N cfg)) = vars ! x_start (N cfg) \<and>
     fg' ! (1 + y_start (N cfg)) = vars ! y_start (N cfg) \<and>
     fg' ! (1 + psi_start (N cfg)) = vars ! psi_start (N cfg) \<and>
     fg' ! (1 + v_start (N cfg)) = vars ! v_start (N cfg) \<and>
     fg' ! (1 + cte_start (N cfg)) = vars ! cte_start (N cfg) \<and>
     fg' ! (1 + epsi_start (N cfg)) = vars ! epsi_start (N cfg)) \<and>
     (\<forall>i<N cfg - 1.
        fg' ! (2 + x_start (N cfg) + i) =
          vars ! (x_start (N cfg) + i + 1)
          - (vars ! (x_start (N cfg) + i)
             + vars ! (v_start (N cfg) + i) * cos (vars ! (psi_start (N cfg) + i)) * dt cfg) \<and>
        fg' ! (2 + y_start (N cfg) + i) =
          vars ! (y_start (N cfg) + i + 1)
          - (vars ! (y_start (N cfg) + i)
             + vars ! (v_start (N cfg) + i) * sin (vars ! (psi_start (N cfg) + i)) * dt cfg) \<and>
        fg' ! (2 + psi_start (N cfg) + i) =
          vars ! (psi_start (N cfg) + i + 1)
          - (vars ! (psi_start (N cfg) + i)
             + vars ! (v_start (N cfg) + i) * vars ! (delta_start (N cfg) + i) / Lf * dt cfg) \<and>
        fg' ! (2 + v_start (N cfg) + i) =
          vars ! (v_start (N cfg) + i + 1)
          - (vars ! (v_start (N cfg) + i) + vars ! (a_start (N cfg) + i) * dt cfg) \<and>
        fg' ! (2 + cte_start (N cfg) + i) =
          vars ! (cte_start (N cfg) + i + 1)
          - (((coeffs ! 0 + coeffs ! 1 * vars ! (x_start (N cfg) + i)
                + coeffs ! 2 * (vars ! (x_start (N cfg) + i))\<^sup>2
                + coeffs ! 3 * vars ! (x_start (N cfg) + i) ^ 3)
              - vars ! (y_start (N cfg) + i))
             + vars ! (v_start (N cfg) + i) * sin (vars ! (epsi_start (N cfg) + i)) * dt cfg) \<and>
        fg' ! (2 + epsi_start (N cfg) + i) =
          vars ! (epsi_start (N cfg) + i + 1)
          - ((vars ! (psi_start (N cfg) + i)
              - arctan (coeffs ! 1 + 2 * coeffs ! 2 * vars ! (x_start (N cfg) + i)
                        + 3 * coeffs ! 3 * (vars ! (x_start (N cfg) + i))\<^sup>2))
             + vars ! (v_start (N cfg) + i) * vars ! (delta_start (N cfg) + i) / Lf * dt cfg))"
proof -
  let ?f1 = "fg[0 := (\<Sum>i = 0..<N cfg. (vars ! (cte_start (N cfg) + i) - ref_cte cfg)\<^sup>2
            + (vars ! (epsi_start (N cfg) + i) - ref_epsi cfg)\<^sup>2
            + (vars ! (v_start (N cfg) + i) - ref_v cfg)\<^sup>2)
   + (\<Sum>i = 0..<N cfg - 1. (vars ! (delta_start (N cfg) + i))\<^sup>2 + (vars ! (a_start (N cfg) + i))\<^sup>2)
   + (\<Sum>i = 0..<N cfg - 2. (vars ! (delta_start (N cfg) + i + 1) - vars ! (delta_start (N cfg) + i))\<^sup>2
            + (vars ! (a_start (N cfg) + i + 1) - vars ! (a_start (N cfg) + i))\<^sup>2)]"
  let ?f2 = "?f1[1 + x_start (N cfg) := vars ! x_start (N cfg),
      1 + y_start (N cfg) := vars ! y_start (N cfg),
      1 + psi_start (N cfg) := vars ! psi_start (N cfg),
      1 + v_start (N cfg) := vars ! v_start (N cfg),
      1 + cte_start (N cfg) := vars ! cte_start (N cfg),
      1 + epsi_start (N cfg) := vars ! epsi_start (N cfg)]"
  have n1: "1 \<le> N cfg" using n by simp
  have c: "FG_cost cfg vars fg = Some ?f1"
    using lf by (intro FG_cost_eq n lv) simp
  have l1: "length ?f1 = 1 + n_constraints (N cfg)" using lf by simp
  have i: "initial_constraints cfg vars ?f1 = Some ?f2"
    by (rule initial_constraints_eq [OF n1 lv l1])
  have l2: "length ?f2 = 1 + n_constraints (N cfg)" using lf by simp
  from constraint_loop [OF n lv l2 lc] obtain fg' where
    run: "for_loop 0 (N cfg - 1) (constraint_step cfg coeffs vars) ?f2 = Some fg'"
    and len: "length fg' = 1 + n_constraints (N cfg)"
    and res: "\<forall>i<N cfg - 1.
        fg' ! (2 + x_start (N cfg) + i) =
          vars ! (x_start (N cfg) + i + 1)
          - (vars ! (x_start (N cfg) + i)
             + vars ! (v_start (N cfg) + i) * cos (vars ! (psi_start (N cfg) + i)) * dt cfg) \<and>
        fg' ! (2 + y_start (N cfg) + i) =
          vars ! (y_start (N cfg) + i + 1)
          - (vars ! (y_start (N cfg) + i)
             + vars ! (v_start (N cfg) + i) * sin (vars ! (psi_start (N cfg) + i)) * dt cfg) \<and>
        fg' ! (2 + psi_start (N cfg) + i) =
          vars ! (psi_start (N cfg) + i + 1)
          - (vars ! (psi_start (N cfg) + i)
             + vars ! (v_start (N cfg) + i) * vars ! (delta_start (N cfg) + i) / Lf * dt cfg) \<and>
        fg' ! (2 + v_start (N cfg) + i) =
          vars ! (v_start (N cfg) + i + 1)
          - (vars ! (v_start (N cfg) + i) + vars ! (a_start (N cfg) + i) * dt cfg) \<and>
        fg' ! (2 + cte_start (N cfg) + i) =
          vars ! (cte_start (N cfg) + i + 1)
          - (((coeffs ! 0 + coeffs ! 1 * vars ! (x_start (N cfg) + i)
                + coeffs ! 2 * (vars ! (x_start (N cfg) + i))\<^sup>2
                + coeffs ! 3 * vars ! (x_start (N cfg) + i) ^ 3)
              - vars ! (y_start (N cfg) + i))
             + vars ! (v_start (N cfg) + i) * sin (vars ! (epsi_start (N cfg) + i)) * dt cfg) \<and>
        fg' ! (2 + epsi_start (N cfg) + i) =
          vars ! (epsi_start (N cfg) + i + 1)
          - ((vars ! (psi_start (N cfg) + i)
              - arctan (coeffs ! 1 + 2 * coeffs ! 2 * vars ! (x_start (N cfg) + i)
                        + 3 * coeffs ! 3 * (vars ! (x_start (N cfg) + i))\<^sup>2))
             + vars ! (v_start (N cfg) + i) * vars ! (delta_start (N cfg) + i) / Lf * dt cfg)"
    and rest: "\<And>k. (\<forall>i<N cfg - 1. k \<noteq> 2 + x_start (N cfg) + i \<and> k \<noteq> 2 + y_start (N cfg) + i \<and>
              k \<noteq> 2 + psi_start (N cfg) + i \<and> k \<noteq> 2 + v_start (N cfg) + i \<and>
              k \<noteq> 2 + cte_start (N cfg) + i \<and> k \<noteq> 2 + epsi_start (N cfg) + i)
          \<Longrightarrow> fg' ! k = ?f2 ! k"
    by blast
  have ev: "FG_eval cfg coeffs fg vars = Some fg'"
    by (simp only: FG_eval_def c i run Option.bind.simps)
  have "fg' ! 0 = ?f2 ! 0" by (rule rest) simp
  also have "?f2 ! 0 = ?f1 ! 0" by simp
  also have "?f1 ! 0 = (\<Sum>i = 0..<N cfg. (vars ! (cte_start (N cfg) + i) - ref_cte cfg)\<^sup>2
            + (vars ! (epsi_start (N cfg) + i) - ref_epsi cfg)\<^sup>2
            + (vars ! (v_start (N cfg) + i) - ref_v cfg)\<^sup>2)
   + (\<Sum>i = 0..<N cfg - 1. (vars ! (delta_start (N cfg) + i))\<^sup>2 + (vars ! (a_start (N cfg) + i))\<^sup>2)
   + (\<Sum>i = 0..<N cfg - 2. (vars ! (delta_start (N cfg) + i + 1) - vars ! (delta_start (N cfg) + i))\<^sup>2
            + (vars ! (a_start (N cfg) + i + 1) - vars ! (a_start (N cfg) + i))\<^sup>2)" using lf by simp
  finally have cost: "fg' ! 0 = (\<Sum>i = 0..<N cfg. (vars ! (cte_start (N cfg) + i) - ref_cte cfg)\<^sup>2
            + (vars ! (epsi_start (N cfg) + i) - ref_epsi cfg)\<^sup>2
            + (vars ! (v_start (N cfg) + i) - ref_v cfg)\<^sup>2)
   + (\<Sum>i = 0..<N cfg - 1. (vars ! (delta_start (N cfg) + i))\<^sup>2 + (vars ! (a_start (N cfg) + i))\<^sup>2)
   + (\<Sum>i = 0..<N cfg - 2. (vars ! (delta_start (N cfg) + i + 1) - vars ! (delta_start (N cfg) + i))\<^sup>2
            + (vars ! (a_start (N cfg) + i + 1) - vars ! (a_start (N cfg) + i))\<^sup>2)" .
  have apart: "\<forall>i<N cfg - 1. k \<noteq> 2 + x_start (N cfg) + i \<and> k \<noteq> 2 + y_start (N cfg) + i \<and>
              k \<noteq> 2 + psi_start (N cfg) + i \<and> k \<noteq> 2 + v_start (N cfg) + i \<and>
              k \<noteq> 2 + cte_start (N cfg) + i \<and> k \<noteq> 2 + epsi_start (N cfg) + i"
    if "k = 1 + x_start (N cfg) \<or> k = 1 + y_start (N cfg) \<or> k = 1 + psi_start (N cfg) \<or>
        k = 1 + v_start (N cfg) \<or> k = 1 + cte_start (N cfg) \<or> k = 1 + epsi_start (N cfg)" for k
    using that n by (auto simp: starts_defs)
  have keep: "fg' ! (1 + x_start (N cfg)) = ?f2 ! (1 + x_start (N cfg))"
    "fg' ! (1 + y_start (N cfg)) = ?f2 ! (1 + y_start (N cfg))"
    "fg' ! (1 + psi_start (N cfg)) = ?f2 ! (1 + psi_start (N cfg))"
    "fg' ! (1 + v_start (N cfg)) = ?f2 ! (1 + v_start (N cfg))"
    "fg' ! (1 + cte_start (N cfg)) = ?f2 ! (1 + cte_start (N cfg))"
    "fg' ! (1 + epsi_start (N cfg)) = ?f2 ! (1 + epsi_start (N cfg))"
    by (rule rest, rule apart, blast)+
  have pinned: "?f2 ! (1 + x_start (N cfg)) = vars ! x_start (N cfg)"
    "?f2 ! (1 + y_start (N cfg)) = vars ! y_start (N cfg)"
    "?f2 ! (1 + psi_start (N cfg)) = vars ! psi_start (N cfg)"
    "?f2 ! (1 + v_start (N cfg)) = vars ! v_start (N cfg)"
    "?f2 ! (1 + cte_start (N cfg)) = vars ! cte_start (N cfg)"
    "?f2 ! (1 + epsi_start (N cfg)) = vars ! epsi_start (N cfg)"
    by (rule pinned_entries [OF n1 l1])+
  show ?thesis
    by (intro exI [of _ fg'] conjI ev len cost keep [THEN trans] pinned res)
qed

subsection \<open>Coefficients beyond the fourth, and the indices that are written\<close>

lemma f0_of_take: "4 \<le> length coeffs \<Longrightarrow> f0_of (take 4 coeffs) x0 = f0_of coeffs x0"
  by (simp add: f0_of_eq)

lemma psides0_of_take: "4 \<le> length coeffs \<Longrightarrow> psides0_of (take 4 coeffs) x0 = psides0_of coeffs x0"
  by (simp add: psides0_of_eq)

lemma constraint_step_take:
  "4 \<le> length coeffs \<Longrightarrow> constraint_step cfg (take 4 coeffs) = constraint_step cfg coeffs"
  by (intro ext) (simp only: constraint_step_def f0_of_take psides0_of_take)

lemma block_coverage:
  assumes "1 \<le> k" "k \<le> 6 * n"
  shows "(k = 1 + x_start n \<or> k = 1 + y_start n \<or> k = 1 + psi_start n \<or>
          k = 1 + v_start n \<or> k = 1 + cte_start n \<or> k = 1 + epsi_start n) \<or>
         (\<exists>i<n - 1. k = 2 + x_start n + i \<or> k = 2 + y_start n + i \<or> k = 2 + psi_start n + i \<or>
                   k = 2 + v_start n + i \<or> k = 2 + cte_start n + i \<or> k = 2 + epsi_start n + i)"
proof -
  have blk: "k = 1 + s \<or> (\<exists>i<n - 1. k = 2 + s + i)" if "s < k" "k \<le> s + n" for s
  proof (cases "k = 1 + s")
    case False
    then have "k - 2 - s < n - 1" "k = 2 + s + (k - 2 - s)" using that by simp_all
    then show ?thesis by blast
  qed simp
  consider "k \<le> n" | "n < k" "k \<le> 2 * n" | "2 * n < k" "k \<le> 3 * n" | "3 * n < k" "k \<le> 4 * n"
    | "4 * n < k" "k \<le> 5 * n" | "5 * n < k" "k \<le> 6 * n"
    using assms by linarith
  then show ?thesis
  proof cases
    case 1
    with blk [of 0] assms show ?thesis by (auto simp: starts_defs)
  next
    case 2
    with blk [of n] show ?thesis by (auto simp: starts_defs)
  next
    case 3
    with blk [of "n + n"] show ?thesis by (auto simp: starts_defs)
  next
    case 4
    with blk [of "n + n + n"] show ?thesis by (auto simp: starts_defs)
  next
    case 5
    with blk [of "n + n + n + n"] show ?thesis by (auto simp: starts_defs)
  next
    case 6
    with blk [of "n + n + n + n + n"] show ?thesis by (auto simp: starts_defs)
  qed
qed

section \<open>Claims about the trajectory evaluator\<close>

lemma vars_in_range:
  assumes "2 \<le> N cfg" "i < N cfg - 1"
  shows "x_start (N cfg) + i + 1 < n_vars (N cfg)" "y_start (N cfg) + i + 1 < n_vars (N cfg)"
    "psi_start (N cfg) + i + 1 < n_vars (N cfg)" "v_start (N cfg) + i + 1 < n_vars (N cfg)"
    "cte_start (N cfg) + i + 1 < n_vars (N cfg)" "epsi_start (N cfg) + i + 1 < n_vars (N cfg)"
    "x_start (N cfg) + i < n_vars (N cfg)" "y_start (N cfg) + i < n_vars (N cfg)"
    "psi_start (N cfg) + i < n_vars (N cfg)" "v_start (N cfg) + i < n_vars (N cfg)"
    "cte_start (N cfg) + i < n_vars (N cfg)" "epsi_start (N cfg) + i < n_vars (N cfg)"
    "delta_start (N cfg) + i < n_vars (N cfg)" "a_start (N cfg) + i < n_vars (N cfg)"
  using assms by (simp_all add: starts_defs n_vars_def)

lemma constraint_step_None:
  assumes n: "2 \<le> N cfg" and lv: "length vars = n_vars (N cfg)" and i: "i < N cfg - 1"
    and lc: "length coeffs < 4"
  shows "constraint_step cfg coeffs vars i fg = None"
proof -
  have r: "k < n_vars (N cfg) \<Longrightarrow> rd vars k = Some (vars ! k)" for k
    using lv by simp
  note b = vars_in_range [OF n i]
  show ?thesis
    by (simp only: constraint_step_def r [OF b(1)] r [OF b(2)] r [OF b(3)] r [OF b(4)]
        r [OF b(5)] r [OF b(6)] r [OF b(7)] r [OF b(8)] r [OF b(9)] r [OF b(10)] r [OF b(11)]
        r [OF b(12)] r [OF b(13)] r [OF b(14)] f0_of_None [OF lc] Option.bind.simps)
qed

lemma FG_eval_None:
  assumes n: "2 \<le> N cfg" and lv: "length vars = n_vars (N cfg)"
    and lf: "length fg = 1 + n_constraints (N cfg)" and lc: "length coeffs < 4"
  shows "FG_eval cfg coeffs fg vars = None"
proof -
  have n1: "1 \<le> N cfg" using n by simp
  obtain f1 where c: "FG_cost cfg vars fg = Some f1" and l1: "length f1 = length fg"
    using FG_cost_eq [OF n lv, of fg] lf by simp
  obtain f2 where i: "initial_constraints cfg vars f1 = Some f2"
    using initial_constraints_eq [OF n1 lv, of f1] l1 lf by simp
  have "0 < N cfg - 1" using n by simp
  then have "for_loop 0 (N cfg - 1) (constraint_step cfg coeffs vars) f2 = None"
    by (rule for_loop_first_None) (rule constraint_step_None [OF n lv _ lc], use n in simp)
  then show ?thesis
    by (simp only: FG_eval_def c i Option.bind.simps)
qed

lemma counters_fit_int:
  assumes "2 \<le> n" "n \<le> 2 ^ 28"
  shows "n_vars n < 2 ^ 31" "n_constraints n < 2 ^ 31" "a_start n < n_vars n"
    "n - 1 = n - Suc 0" "0 < n - 1"
  using assms by (simp_all add: n_vars_def n_constraints_def starts_defs)

lemma shipped_values:
  "N shipped = 25" "n_vars 25 = 198" "n_constraints 25 = 150"
  "x_start 25 = 0" "y_start 25 = 25" "psi_start 25 = 50"
  "v_start 25 = 75" "cte_start 25 = 100" "epsi_start 25 = 125"
  "delta_start 25 = 150" "a_start 25 = 174"
  by (simp_all add: shipped_def n_vars_def n_constraints_def starts_defs)

lemma horizon3_values:
  "N horizon3 = 3" "n_vars 3 = 22" "n_constraints 3 = 18"
  "x_start 3 = 0" "y_start 3 = 3" "psi_start 3 = 6"
  "v_start 3 = 9" "cte_start 3 = 12" "epsi_start 3 = 15"
  "delta_start 3 = 18" "a_start 3 = 20"
  "dt horizon3 = 1 / 20" "ref_cte horizon3 = 0" "ref_epsi horizon3 = 0" "ref_v horizon3 = 40"
  by (simp_all add: horizon3_def shipped_def n_vars_def n_constraints_def starts_defs)

lemma FG_eval_horizon3:
  "FG_eval horizon3 [1, 0, 0, 0] (replicate 19 7) vars3 =
     Some [58, 0, - 1, 1, 0, 0, 0, 0, - (200 / 267), - (400 / 267), 40, - (3 / 20), - (1 / 4),
           1, 1, 2, 0, - (200 / 267), - (400 / 267)]"
  by (simp add: FG_eval_def FG_cost_def initial_constraints_def constraint_step_def
      cost_reference_def cost_actuators_def cost_gap_def add_cost_def f0_of_def psides0_of_def
      for_loop.simps rd_def wr_def horizon3_def shipped_def vars3_def starts_defs Lf_def
      eval_nat_numeral)

lemma horizon3_hyps:
  "2 \<le> N horizon3" "length vars3 = n_vars (N horizon3)"
  "length (replicate 19 (7::real)) = 1 + n_constraints (N horizon3)"
  "4 \<le> length [1, 0, 0, 0 :: real]"
  by (simp_all add: horizon3_values vars3_def)

text \<open>
  Claim C2, with the range that the loop has. For every step \<open>i\<close> from \<open>0\<close> up to and
  excluding \<open>N - 1\<close> the evaluator sets the six defect entries of step \<open>i + 1\<close>, at the
  indices \<open>2 + start + i\<close> of \<open>fg\<close>, to the residuals of the six update equations of the
  kinematic bicycle model, with \<open>f(x[i])\<close> the fitted cubic and \<open>atan(f'(x[i]))\<close> the
  reference heading. The six initial-condition entries, at the indices \<open>1 + start\<close>, hold
  the first entry of each state block. Every index from \<open>1\<close> to \<open>6 * N\<close> is one of these:
  six initial entries and \<open>6 * (N - 1)\<close> defect residuals.
\<close>

theorem defect_constraints:
  assumes "2 \<le> N cfg" "length vars = n_vars (N cfg)"
    "length fg = 1 + n_constraints (N cfg)" "4 \<le> length coeffs"
  shows "\<exists>fg'. FG_eval cfg coeffs fg vars = Some fg' \<and>
     length fg' = 1 + 6 * N cfg \<and>
     (\<forall>i<N cfg - 1.
        fg' ! (2 + x_start (N cfg) + i) =
          vars ! (x_start (N cfg) + i + 1)
          - (vars ! (x_start (N cfg) + i)
             + vars ! (v_start (N cfg) + i) * cos (vars ! (psi_start (N cfg) + i)) * dt cfg) \<and>
        fg' ! (2 + y_start (N cfg) + i) =
          vars ! (y_start (N cfg) + i + 1)
          - (vars ! (y_start (N cfg) + i)
             + vars ! (v_start (N cfg) + i) * sin (vars ! (psi_start (N cfg) + i)) * dt cfg) \<and>
        fg' ! (2 + psi_start (N cfg) + i) =
          vars ! (psi_start (N cfg) + i + 1)
          - (vars ! (psi_start (N cfg) + i)
             + vars ! (v_start (N cfg) + i) * vars ! (delta_start (N cfg) + i) / Lf * dt cfg) \<and>
        fg' ! (2 + v_start (N cfg) + i) =
          vars ! (v_start (N cfg) + i + 1)
          - (vars ! (v_start (N cfg) + i) + vars ! (a_start (N cfg) + i) * dt cfg) \<and>
        fg' ! (2 + cte_start (N cfg) + i) =
          vars ! (cte_start (N cfg) + i + 1)
          - (((coeffs ! 0 + coeffs ! 1 * vars ! (x_start (N cfg) + i)
                + coeffs ! 2 * (vars ! (x_start (N cfg) + i))\<^sup>2
                + coeffs ! 3 * vars ! (x_start (N cfg) + i) ^ 3)
              - vars ! (y_start (N cfg) + i))
             + vars ! (v_start (N cfg) + i) * sin (vars ! (epsi_start (N cfg) + i)) * dt cfg) \<and>
        fg' ! (2 + epsi_start (N cfg) + i) =
          vars ! (epsi_start (N cfg) + i + 1)
          - ((vars ! (psi_start (N cfg) + i)
              - arctan (coeffs ! 1 + 2 * coeffs ! 2 * vars ! (x_start (N cfg) + i)
                        + 3 * coeffs ! 3 * (vars ! (x_start (N cfg) + i))\<^sup>2))
             + vars ! (v_start (N cfg) + i) * vars ! (delta_start (N cfg) + i) / Lf * dt cfg)) \<and>
     (fg' ! (1 + x_start (N cfg)) = vars ! x_start (N cfg) \<and>
     fg' ! (1 + y_start (N cfg)) = vars ! y_start (N cfg) \<and>
     fg' ! (1 + psi_start (N cfg)) = vars ! psi_start (N cfg) \<and>
     fg' ! (1 + v_start (N cfg)) = vars ! v_start (N cfg) \<and>
     fg' ! (1 + cte_start (N cfg)) = vars ! cte_start (N cfg) \<and>
     fg' ! (1 + epsi_start (N cfg)) = vars ! epsi_start (N cfg)) \<and>
     (\<forall>k. 1 \<le> k \<and> k \<le> 6 * N cfg \<longrightarrow>
        (k = 1 + x_start (N cfg) \<or> k = 1 + y_start (N cfg) \<or> k = 1 + psi_start (N cfg) \<or>
         k = 1 + v_start (N cfg) \<or> k = 1 + cte_start (N cfg) \<or> k = 1 + epsi_start (N cfg)) \<or>
        (\<exists>i<N cfg - 1.
           k = 2 + x_start (N cfg) + i \<or> k = 2 + y_start (N cfg) + i \<or>
           k = 2 + psi_start (N cfg) + i \<or> k = 2 + v_start (N cfg) + i \<or>
           k = 2 + cte_start (N cfg) + i \<or> k = 2 + epsi_start (N cfg) + i))"
proof -
  from FG_eval_closed_form [OF assms] obtain fg' where
    ev: "FG_eval cfg coeffs fg vars = Some fg'" and
    len: "length fg' = 1 + n_constraints (N cfg)" and
    init: "fg' ! (1 + x_start (N cfg)) = vars ! x_start (N cfg) \<and>
     fg' ! (1 + y_start (N cfg)) = vars ! y_start (N cfg) \<and>
     fg' ! (1 + psi_start (N cfg)) = vars ! psi_start (N cfg) \<and>
     fg' ! (1 + v_start (N cfg)) = vars ! v_start (N cfg) \<and>
     fg' ! (1 + cte_start (N cfg)) = vars ! cte_start (N cfg) \<and>
     fg' ! (1 + epsi_start (N cfg)) = vars ! epsi_start (N cfg)" and
    res: "\<forall>i<N cfg - 1.
        fg' ! (2 + x_start (N cfg) + i) =
          vars ! (x_start (N cfg) + i + 1)
          - (vars ! (x_start (N cfg) + i)
             + vars ! (v_start (N cfg) + i) * cos (vars ! (psi_start (N cfg) + i)) * dt cfg) \<and>
        fg' ! (2 + y_start (N cfg) + i) =
          vars ! (y_start (N cfg) + i + 1)
          - (vars ! (y_start (N cfg) + i)
             + vars ! (v_start (N cfg) + i) * sin (vars ! (psi_start (N cfg) + i)) * dt cfg) \<and>
        fg' ! (2 + psi_start (N cfg) + i) =
          vars ! (psi_start (N cfg) + i + 1)
          - (vars ! (psi_start (N cfg) + i)
             + vars ! (v_start (N cfg) + i) * vars ! (delta_start (N cfg) + i) / Lf * dt cfg) \<and>
        fg' ! (2 + v_start (N cfg) + i) =
          vars ! (v_start (N cfg) + i + 1)
          - (vars ! (v_start (N cfg) + i) + vars ! (a_start (N cfg) + i) * dt cfg) \<and>
        fg' ! (2 + cte_start (N cfg) + i) =
          vars ! (cte_start (N cfg) + i + 1)
          - (((coeffs ! 0 + coeffs ! 1 * vars ! (x_start (N cfg) + i)
                + coeffs ! 2 * (vars ! (x_start (N cfg) + i))\<^sup>2
                + coeffs ! 3 * vars ! (x_start (N cfg) + i) ^ 3)
              - vars ! (y_start (N cfg) + i))
             + vars ! (v_start (N cfg) + i) * sin (vars ! (epsi_start (N cfg) + i)) * dt cfg) \<and>
        fg' ! (2 + epsi_start (N cfg) + i) =
          vars ! (epsi_start (N cfg) + i + 1)
          - ((vars ! (psi_start (N cfg) + i)
              - arctan (coeffs ! 1 + 2 * coeffs ! 2 * vars ! (x_start (N cfg) + i)
                        + 3 * coeffs ! 3 * (vars ! (x_start (N cfg) + i))\<^sup>2))
             + vars ! (v_start (N cfg) + i) * vars ! (delta_start (N cfg) + i) / Lf * dt cfg)"
    by blast
  have len': "length fg' = 1 + 6 * N cfg" using len by (simp add: n_constraints_def)
  show ?thesis
    by (intro exI [of _ fg'] conjI ev len' res init allI impI block_coverage) simp_all
qed

text \<open>
  The theorem at the short horizon: the twelve residuals of steps 0 and 1 and the six
  pinned entries, as numbers.
\<close>

theorem defect_constraints_witness:
  "2 \<le> N horizon3 \<and> length vars3 = n_vars (N horizon3) \<and>
   length (replicate 19 (7::real)) = 1 + n_constraints (N horizon3) \<and>
   4 \<le> length [1, 0, 0, 0 :: real] \<and>
   (\<exists>fg'. FG_eval horizon3 [1, 0, 0, 0] (replicate 19 7) vars3 = Some fg' \<and> length fg' = 19 \<and>
      fg' ! 2 = - 1 \<and> fg' ! 5 = 0 \<and> fg' ! 8 = - (200 / 267) \<and>
      fg' ! 11 = - (3 / 20) \<and> fg' ! 14 = 1 \<and> fg' ! 17 = - (200 / 267) \<and>
      fg' ! 3 = 1 \<and> fg' ! 6 = 0 \<and> fg' ! 9 = - (400 / 267) \<and>
      fg' ! 12 = - (1 / 4) \<and> fg' ! 15 = 2 \<and> fg' ! 18 = - (400 / 267) \<and>
      fg' ! 1 = 0 \<and> fg' ! 4 = 0 \<and> fg' ! 7 = 0 \<and> fg' ! 10 = 40 \<and> fg' ! 13 = 1 \<and> fg' ! 16 = 0)"
proof -
  from defect_constraints [OF horizon3_hyps] obtain fg' where
    ev: "FG_eval horizon3 [1, 0, 0, 0] (replicate 19 7) vars3 = Some fg'"
    and len: "length fg' = 1 + 6 * N horizon3"
    and res: "\<And>i. i < N horizon3 - 1 \<Longrightarrow>
        fg' ! (2 + x_start (N horizon3) + i) =
          vars3 ! (x_start (N horizon3) + i + 1)
          - (vars3 ! (x_start (N horizon3) + i)
             + vars3 ! (v_start (N horizon3) + i) * cos (vars3 ! (psi_start (N horizon3) + i)) * dt horizon3) \<and>
        fg' ! (2 + y_start (N horizon3) + i) =
          vars3 ! (y_start (N horizon3) + i + 1)
          - (vars3 ! (y_start (N horizon3) + i)
             + vars3 ! (v_start (N horizon3) + i) * sin (vars3 ! (psi_start (N horizon3) + i)) * dt horizon3) \<and>
        fg' ! (2 + psi_start (N horizon3) + i) =
          vars3 ! (psi_start (N horizon3) + i + 1)
          - (vars3 ! (psi_start (N horizon3) + i)
             + vars3 ! (v_start (N horizon3) + i) * vars3 ! (delta_start (N horizon3) + i) / Lf * dt horizon3) \<and>
        fg' ! (2 + v_start (N horizon3) + i) =
          vars3 ! (v_start (N horizon3) + i + 1)
          - (vars3 ! (v_start (N horizon3) + i) + vars3 ! (a_start (N horizon3) + i) * dt horizon3) \<and>
        fg' ! (2 + cte_start (N horizon3) + i) =
          vars3 ! (cte_start (N horizon3) + i + 1)
          - ((([1, 0, 0, 0] ! 0 + [1, 0, 0, 0] ! 1 * vars3 ! (x_start (N horizon3) + i)
                + [1, 0, 0, 0] ! 2 * (vars3 ! (x_start (N horizon3) + i))\<^sup>2
                + [1, 0, 0, 0] ! 3 * vars3 ! (x_start (N horizon3) + i) ^ 3)
              - vars3 ! (y_start (N horizon3) + i))
             + vars3 ! (v_start (N horizon3) + i) * sin (vars3 ! (epsi_start (N horizon3) + i)) * dt horizon3) \<and>
        fg' ! (2 + epsi_start (N horizon3) + i) =
          vars3 ! (epsi_start (N horizon3) + i + 1)
          - ((vars3 ! (psi_start (N horizon3) + i)
              - arctan ([1, 0, 0, 0] ! 1 + 2 * [1, 0, 0, 0] ! 2 * vars3 ! (x_start (N horizon3) + i)
                        + 3 * [1, 0, 0, 0] ! 3 * (vars3 ! (x_start (N horizon3) + i))\<^sup>2))
             + vars3 ! (v_start (N horizon3) + i) * vars3 ! (delta_start (N horizon3) + i) / Lf * dt horizon3)"
    and init: "fg' ! (1 + x_start (N horizon3)) = vars3 ! x_start (N horizon3) \<and>
     fg' ! (1 + y_start (N horizon3)) = vars3 ! y_start (N horizon3) \<and>
     fg' ! (1 + psi_start (N horizon3)) = vars3 ! psi_start (N horizon3) \<and>
     fg' ! (1 + v_start (N horizon3)) = vars3 ! v_start (N horizon3) \<and>
     fg' ! (1 + cte_start (N horizon3)) = vars3 ! cte_start (N horizon3) \<and>
     fg' ! (1 + epsi_start (N horizon3)) = vars3 ! epsi_start (N horizon3)"
    by blast
  have r0: "fg' ! 2 = - 1" "fg' ! 5 = 0" "fg' ! 8 = - (200 / 267)"
      "fg' ! 11 = - (3 / 20)" "fg' ! 14 = 1" "fg' ! 17 = - (200 / 267)"
    using res [of 0] by (simp_all add: horizon3_values vars3_def Lf_def)
  have r1: "fg' ! 3 = 1" "fg' ! 6 = 0" "fg' ! 9 = - (400 / 267)"
      "fg' ! 12 = - (1 / 4)" "fg' ! 15 = 2" "fg' ! 18 = - (400 / 267)"
    using res [of 1] by (simp_all add: horizon3_values vars3_def Lf_def)
  have i0: "fg' ! 1 = 0" "fg' ! 4 = 0" "fg' ! 7 = 0" "fg' ! 10 = 40" "fg' ! 13 = 1" "fg' ! 16 = 0"
    using init by (simp_all add: horizon3_values vars3_def)
  have "length fg' = 19" using len by (simp add: horizon3_values)
  with ev r0 r1 i0 horizon3_hyps show ?thesis by blast
qed

text \<open>
  With the steps restricted to the half-open range from \<open>0\<close> to \<open>N - 2\<close>, the sentence
  fails. At \<open>N = 3\<close> that range holds step 0 only; index 3 of \<open>fg\<close>, which is
  \<open>2 + x_start + 1\<close>, is neither an initial-condition entry nor a defect entry of step 0,
  so the six initial entries and the defect entries of that range do not fill the 18
  constraint entries. The evaluator does write index 3: it is the x residual of step
  \<open>i = 1 = N - 2\<close>, here \<open>4 - (1 + 40 * cos 0 * 0.05) = 1\<close>, and none of the 19 entries keeps
  its initial value 7.
\<close>

theorem defect_range_counterexample:
  "FG_eval horizon3 [1, 0, 0, 0] (replicate 19 7) vars3 =
     Some [58, 0, - 1, 1, 0, 0, 0, 0, - (200 / 267), - (400 / 267), 40, - (3 / 20), - (1 / 4),
           1, 1, 2, 0, - (200 / 267), - (400 / 267)] \<and>
   \<not> (\<forall>k. 1 \<le> k \<and> k \<le> 6 * N horizon3 \<longrightarrow>
        (k = 1 + x_start (N horizon3) \<or> k = 1 + y_start (N horizon3) \<or>
         k = 1 + psi_start (N horizon3) \<or> k = 1 + v_start (N horizon3) \<or>
         k = 1 + cte_start (N horizon3) \<or> k = 1 + epsi_start (N horizon3)) \<or>
        (\<exists>i<N horizon3 - 2.
           k = 2 + x_start (N horizon3) + i \<or> k = 2 + y_start (N horizon3) + i \<or>
           k = 2 + psi_start (N horizon3) + i \<or> k = 2 + v_start (N horizon3) + i \<or>
           k = 2 + cte_start (N horizon3) + i \<or> k = 2 + epsi_start (N horizon3) + i))"
proof (rule conjI [OF FG_eval_horizon3], rule notI)
  assume a: "\<forall>k. 1 \<le> k \<and> k \<le> 6 * N horizon3 \<longrightarrow>
        (k = 1 + x_start (N horizon3) \<or> k = 1 + y_start (N horizon3) \<or>
         k = 1 + psi_start (N horizon3) \<or> k = 1 + v_start (N horizon3) \<or>
         k = 1 + cte_start (N horizon3) \<or> k = 1 + epsi_start (N horizon3)) \<or>
        (\<exists>i<N horizon3 - 2.
           k = 2 + x_start (N horizon3) + i \<or> k = 2 + y_start (N horizon3) + i \<or>
           k = 2 + psi_start (N horizon3) + i \<or> k = 2 + v_start (N horizon3) + i \<or>
           k = 2 + cte_start (N horizon3) + i \<or> k = 2 + epsi_start (N horizon3) + i)"
  from a [rule_format, of 3] show False
    by (simp add: horizon3_values)
qed

text \<open>
  Claim C3. For every decision vector of the right length the cost that the evaluator
  leaves in \<open>fg[0]\<close> is the sum of \<open>(cte - ref_cte)\<^sup>2 + (epsi - ref_epsi)\<^sup>2 + (v - ref_v)\<^sup>2\<close>
  over the \<open>N\<close> steps, plus \<open>delta\<^sup>2 + a\<^sup>2\<close> over the \<open>N - 1\<close> actuations, plus the
  squared differences of consecutive actuations over the \<open>N - 2\<close> pairs; every term has
  weight one.
\<close>

theorem cost_is_unweighted_sum:
  assumes "2 \<le> N cfg" "length vars = n_vars (N cfg)"
    "length fg = 1 + n_constraints (N cfg)" "4 \<le> length coeffs"
  shows "\<exists>fg'. FG_eval cfg coeffs fg vars = Some fg' \<and>
     fg' ! 0 =
       (\<Sum>i<N cfg. (vars ! (cte_start (N cfg) + i) - ref_cte cfg)\<^sup>2
                    + (vars ! (epsi_start (N cfg) + i) - ref_epsi cfg)\<^sup>2
                    + (vars ! (v_start (N cfg) + i) - ref_v cfg)\<^sup>2)
     + (\<Sum>i<N cfg - 1. (vars ! (delta_start (N cfg) + i))\<^sup>2 + (vars ! (a_start (N cfg) + i))\<^sup>2)
     + (\<Sum>i<N cfg - 2. (vars ! (delta_start (N cfg) + i + 1) - vars ! (delta_start (N cfg) + i))\<^sup>2
                    + (vars ! (a_start (N cfg) + i + 1) - vars ! (a_start (N cfg) + i))\<^sup>2)"
proof -
  from FG_eval_closed_form [OF assms] obtain fg' where
    "FG_eval cfg coeffs fg vars = Some fg'" and
    "fg' ! 0 = (\<Sum>i = 0..<N cfg. (vars ! (cte_start (N cfg) + i) - ref_cte cfg)\<^sup>2
            + (vars ! (epsi_start (N cfg) + i) - ref_epsi cfg)\<^sup>2
            + (vars ! (v_start (N cfg) + i) - ref_v cfg)\<^sup>2)
   + (\<Sum>i = 0..<N cfg - 1. (vars ! (delta_start (N cfg) + i))\<^sup>2 + (vars ! (a_start (N cfg) + i))\<^sup>2)
   + (\<Sum>i = 0..<N cfg - 2. (vars ! (delta_start (N cfg) + i + 1) - vars ! (delta_start (N cfg) + i))\<^sup>2
            + (vars ! (a_start (N cfg) + i + 1) - vars ! (a_start (N cfg) + i))\<^sup>2)"
    by blast
  then show ?thesis
    by (auto simp only: lessThan_atLeast0)
qed

text \<open>At the short horizon the cost is \<open>14 + 39 + 5 = 58\<close>.\<close>

theorem cost_is_unweighted_sum_witness:
  "2 \<le> N horizon3 \<and> length vars3 = n_vars (N horizon3) \<and>
   length (replicate 19 (7::real)) = 1 + n_constraints (N horizon3) \<and>
   4 \<le> length [1, 0, 0, 0 :: real] \<and>
   (\<exists>fg'. FG_eval horizon3 [1, 0, 0, 0] (replicate 19 7) vars3 = Some fg' \<and> fg' ! 0 = 58)"
proof -
  from cost_is_unweighted_sum [OF horizon3_hyps] obtain fg' where
    "FG_eval horizon3 [1, 0, 0, 0] (replicate 19 7) vars3 = Some fg'"
    "fg' ! 0 =
       (\<Sum>i<N horizon3. (vars3 ! (cte_start (N horizon3) + i) - ref_cte horizon3)\<^sup>2
                    + (vars3 ! (epsi_start (N horizon3) + i) - ref_epsi horizon3)\<^sup>2
                    + (vars3 ! (v_start (N horizon3) + i) - ref_v horizon3)\<^sup>2)
     + (\<Sum>i<N horizon3 - 1. (vars3 ! (delta_start (N horizon3) + i))\<^sup>2
                    + (vars3 ! (a_start (N horizon3) + i))\<^sup>2)
     + (\<Sum>i<N horizon3 - 2. (vars3 ! (delta_start (N horizon3) + i + 1)
                               - vars3 ! (delta_start (N horizon3) + i))\<^sup>2
                    + (vars3 ! (a_start (N horizon3) + i + 1) - vars3 ! (a_start (N horizon3) + i))\<^sup>2)"
    by blast
  then have "\<exists>fg'. FG_eval horizon3 [1, 0, 0, 0] (replicate 19 7) vars3 = Some fg' \<and> fg' ! 0 = 58"
    by (simp add: horizon3_def shipped_def vars3_def starts_defs eval_nat_numeral lessThan_Suc)
  with horizon3_hyps show ?thesis by blast
qed

text \<open>
  Claim C10. The evaluator reads the coefficients 0 to 3 in every step of the constraint
  loop, whatever the length of the coefficient vector: with a horizon of at least two steps
  the evaluation stays in range exactly when the vector has at least four entries, and
  entries beyond the fourth are never read.
\<close>

theorem coefficients_zero_to_three:
  assumes "2 \<le> N cfg" "length vars = n_vars (N cfg)" "length fg = 1 + n_constraints (N cfg)"
  shows "(FG_eval cfg coeffs fg vars \<noteq> None \<longleftrightarrow> 4 \<le> length coeffs) \<and>
         (f0_of coeffs x0 \<noteq> None \<longleftrightarrow> 4 \<le> length coeffs) \<and>
         (psides0_of coeffs x0 \<noteq> None \<longleftrightarrow> 4 \<le> length coeffs) \<and>
         (4 \<le> length coeffs \<longrightarrow> FG_eval cfg (take 4 coeffs) fg vars = FG_eval cfg coeffs fg vars)"
proof (intro conjI)
  show "FG_eval cfg coeffs fg vars \<noteq> None \<longleftrightarrow> 4 \<le> length coeffs"
  proof (cases "4 \<le> length coeffs")
    case True
    from FG_eval_closed_form [OF assms True] show ?thesis using True by auto
  next
    case False
    then have "length coeffs < 4" by simp
    from FG_eval_None [OF assms this] show ?thesis using False by simp
  qed
  show "f0_of coeffs x0 \<noteq> None \<longleftrightarrow> 4 \<le> length coeffs"
    using f0_of_eq [of coeffs x0] f0_of_None [of coeffs x0] by (cases "4 \<le> length coeffs") auto
  show "psides0_of coeffs x0 \<noteq> None \<longleftrightarrow> 4 \<le> length coeffs"
    using psides0_of_eq [of coeffs x0] psides0_of_None [of coeffs x0]
    by (cases "4 \<le> length coeffs") auto
  show "4 \<le> length coeffs \<longrightarrow> FG_eval cfg (take 4 coeffs) fg vars = FG_eval cfg coeffs fg vars"
    by (simp add: FG_eval_def constraint_step_take)
qed

text \<open>Four coefficients are enough, three are not, a fifth is ignored.\<close>

theorem coefficients_zero_to_three_witness:
  "2 \<le> N horizon3 \<and> length vars3 = n_vars (N horizon3) \<and>
   length (replicate 19 (7::real)) = 1 + n_constraints (N horizon3) \<and>
   FG_eval horizon3 [1, 0, 0, 0] (replicate 19 7) vars3 \<noteq> None \<and>
   FG_eval horizon3 [1, 0, 0] (replicate 19 7) vars3 = None \<and>
   f0_of [1, 0, 0] 0 = None \<and> psides0_of [1, 0, 0] 0 = None \<and>
   FG_eval horizon3 (take 4 [1, 0, 0, 0, 9]) (replicate 19 7) vars3 =
     FG_eval horizon3 [1, 0, 0, 0, 9] (replicate 19 7) vars3"
  using coefficients_zero_to_three [OF horizon3_hyps(1,2,3), of "[1, 0, 0, 0]" 0]
    coefficients_zero_to_three [OF horizon3_hyps(1,2,3), of "[1, 0, 0]" 0]
    coefficients_zero_to_three [OF horizon3_hyps(1,2,3), of "[1, 0, 0, 0, 9]" 0]
    horizon3_hyps(1,2,3)
  by simp

section \<open>The problem that Solve sets up\<close>

lemma read_state_eq:
  "6 \<le> length x0 \<Longrightarrow> read_state x0 = Some (x0 ! 0, x0 ! 1, x0 ! 2, x0 ! 3, x0 ! 4, x0 ! 5)"
  by (auto simp: read_state_def rd_def)

lemma read_state_None: "length x0 < 6 \<Longrightarrow> read_state x0 = None"
  by (auto simp: read_state_def rd_def Option.bind_eq_None_conv)

lemma for_loop_fill:
  assumes "length v = n"
  shows "for_loop 0 n (\<lambda>i vars. wr vars i c) v = Some (replicate n c)"
proof -
  let ?P = "\<lambda>i t. length t = n \<and> (\<forall>k<i. t ! k = c)"
  have "\<exists>s'. for_loop 0 n (\<lambda>i vars. wr vars i c) v = Some s' \<and> ?P n s'"
  proof (rule for_loop_invariant [where P = ?P])
    show "?P 0 v" using assms by simp
    show "0 \<le> n" by simp
  next
    fix i t
    assume "i < n" and "?P i t"
    then show "\<exists>t'. wr t i c = Some t' \<and> ?P (Suc i) t'"
      by (auto simp: nth_list_update less_Suc_eq)
  qed
  then obtain s' where s: "for_loop 0 n (\<lambda>i vars. wr vars i c) v = Some s'"
    and "length s' = n" "\<forall>k<n. s' ! k = c"
    by blast
  then have "s' = replicate n c"
    by (intro nth_equalityI) simp_all
  with s show ?thesis by simp
qed

lemma for_loop_set_bounds:
  assumes "lo \<le> hi" "hi \<le> length l" "length u = length l"
  shows "\<exists>l' u'. for_loop lo hi (set_bounds a b) (l, u) = Some (l', u') \<and>
           length l' = length l \<and> length u' = length l \<and>
           (\<forall>k. l' ! k = (if lo \<le> k \<and> k < hi then a else l ! k)) \<and>
           (\<forall>k. u' ! k = (if lo \<le> k \<and> k < hi then b else u ! k))"
proof -
  let ?P = "\<lambda>i t. case t of (l', u') \<Rightarrow> length l' = length l \<and> length u' = length l \<and>
           (\<forall>k. l' ! k = (if lo \<le> k \<and> k < i then a else l ! k)) \<and>
           (\<forall>k. u' ! k = (if lo \<le> k \<and> k < i then b else u ! k))"
  have "\<exists>s'. for_loop lo hi (set_bounds a b) (l, u) = Some s' \<and> ?P hi s'"
  proof (rule for_loop_invariant [where P = ?P])
    show "?P lo (l, u)" using assms by simp
    show "lo \<le> hi" by (rule assms)
  next
    fix i t
    assume i: "lo \<le> i" "i < hi" and P: "?P i t"
    obtain l' u' where t: "t = (l', u')" by (cases t)
    have len: "i < length l'" "i < length u'" using P i assms t by simp_all
    have "set_bounds a b i t = Some (l'[i := a], u'[i := b])"
      using len by (simp add: set_bounds_def t)
    moreover have "?P (Suc i) (l'[i := a], u'[i := b])"
      using P i len t by (auto simp: nth_list_update less_Suc_eq)
    ultimately show "\<exists>t'. set_bounds a b i t = Some t' \<and> ?P (Suc i) t'" by blast
  qed
  then show ?thesis by auto
qed

lemma starts_order:
  assumes "1 \<le> n"
  shows "delta_start n \<le> a_start n" "a_start n \<le> n_vars n" "delta_start n = 6 * n"
    "a_start n = 7 * n - 1" "n_vars n = 8 * n - 2"
  using assms by (simp_all add: starts_defs n_vars_def)

lemma vars_bounds_eq:
  assumes n: "1 \<le> N cfg"
  shows "\<exists>vl vu. vars_bounds cfg junk_l junk_u = Some (vl, vu) \<and>
     length vl = n_vars (N cfg) \<and> length vu = n_vars (N cfg) \<and>
     (\<forall>k<n_vars (N cfg).
        vl ! k = (if k < delta_start (N cfg) then - (10 ^ 19)
                  else if k < a_start (N cfg) then - (436332 / 1000000) else - 1) \<and>
        vu ! k = (if k < delta_start (N cfg) then 10 ^ 19
                  else if k < a_start (N cfg) then 436332 / 1000000 else 1))"
proof -
  note o = starts_order [OF n]
  let ?l0 = "Dvector junk_l (n_vars (N cfg))" and ?u0 = "Dvector junk_u (n_vars (N cfg))"
  from for_loop_set_bounds [of 0 "delta_start (N cfg)" ?l0 ?u0 "- (10 ^ 19)" "10 ^ 19"]
  obtain l1 u1 where
    s1: "for_loop 0 (delta_start (N cfg)) (set_bounds (- (10 ^ 19)) (10 ^ 19)) (?l0, ?u0) = Some (l1, u1)"
    and len1: "length l1 = n_vars (N cfg)" "length u1 = n_vars (N cfg)"
    and v1: "\<And>k. l1 ! k = (if 0 \<le> k \<and> k < delta_start (N cfg) then - (10 ^ 19) else ?l0 ! k)"
      "\<And>k. u1 ! k = (if 0 \<le> k \<and> k < delta_start (N cfg) then 10 ^ 19 else ?u0 ! k)"
    using o by auto
  from for_loop_set_bounds [of "delta_start (N cfg)" "a_start (N cfg)" l1 u1
      "- (436332 / 1000000)" "436332 / 1000000"]
  obtain l2 u2 where
    s2: "for_loop (delta_start (N cfg)) (a_start (N cfg))
           (set_bounds (- (436332 / 1000000)) (436332 / 1000000)) (l1, u1) = Some (l2, u2)"
    and len2: "length l2 = n_vars (N cfg)" "length u2 = n_vars (N cfg)"
    and v2: "\<And>k. l2 ! k = (if delta_start (N cfg) \<le> k \<and> k < a_start (N cfg)
                             then - (436332 / 1000000) else l1 ! k)"
      "\<And>k. u2 ! k = (if delta_start (N cfg) \<le> k \<and> k < a_start (N cfg)
                             then 436332 / 1000000 else u1 ! k)"
    using o len1 by auto
  from for_loop_set_bounds [of "a_start (N cfg)" "n_vars (N cfg)" l2 u2 "- 1" 1]
  obtain l3 u3 where
    s3: "for_loop (a_start (N cfg)) (n_vars (N cfg)) (set_bounds (- 1) 1) (l2, u2) = Some (l3, u3)"
    and len3: "length l3 = n_vars (N cfg)" "length u3 = n_vars (N cfg)"
    and v3: "\<And>k. l3 ! k = (if a_start (N cfg) \<le> k \<and> k < n_vars (N cfg) then - 1 else l2 ! k)"
      "\<And>k. u3 ! k = (if a_start (N cfg) \<le> k \<and> k < n_vars (N cfg) then 1 else u2 ! k)"
    using o len2 by auto
  have run: "vars_bounds cfg junk_l junk_u = Some (l3, u3)"
    by (simp only: vars_bounds_def Let_def s1 s2 s3 Option.bind.simps)
  have "l3 ! k = (if k < delta_start (N cfg) then - (10 ^ 19)
                  else if k < a_start (N cfg) then - (436332 / 1000000) else - 1)"
    "u3 ! k = (if k < delta_start (N cfg) then 10 ^ 19
                  else if k < a_start (N cfg) then 436332 / 1000000 else 1)"
    if "k < n_vars (N cfg)" for k
    using that o(1,2) by (simp_all add: v1 v2 v3)
  with run len3 show ?thesis by blast
qed

lemma six_writes:
  fixes t :: "'a list"
  assumes "1 \<le> n" "6 * n \<le> length t"
  shows "do { t \<leftarrow> wr t (x_start n) a; t \<leftarrow> wr t (y_start n) b; t \<leftarrow> wr t (psi_start n) c;
              t \<leftarrow> wr t (v_start n) d; t \<leftarrow> wr t (cte_start n) e; wr t (epsi_start n) f }
         = Some (t[x_start n := a, y_start n := b, psi_start n := c,
                   v_start n := d, cte_start n := e, epsi_start n := f])"
proof -
  have b: "x_start n < length t" "y_start n < length t" "psi_start n < length t"
    "v_start n < length t" "cte_start n < length t" "epsi_start n < length t"
    using assms by (auto simp: starts_defs)
  show ?thesis
    by (simp only: wr_Some b length_list_update Option.bind.simps)
qed

lemma six_writes_nth:
  fixes t :: "'a list"
  assumes "1 \<le> n" "6 * n \<le> length t" "k < length t"
  shows "t[x_start n := a, y_start n := b, psi_start n := c,
           v_start n := d, cte_start n := e, epsi_start n := f] ! k =
         (if k = x_start n then a else if k = y_start n then b else if k = psi_start n then c
          else if k = v_start n then d else if k = cte_start n then e
          else if k = epsi_start n then f else t ! k)"
  using assms by (auto simp: starts_defs nth_list_update)

lemma initial_vars_eq:
  assumes n: "1 \<le> N cfg"
  shows "initial_vars cfg junk (x, y, psi, v, cte, epsi) =
     Some ((replicate (n_vars (N cfg)) 0)
             [x_start (N cfg) := x, y_start (N cfg) := y, psi_start (N cfg) := psi,
              v_start (N cfg) := v, cte_start (N cfg) := cte, epsi_start (N cfg) := epsi])"
proof -
  have z: "for_loop 0 (n_vars (N cfg)) (\<lambda>i vars. wr vars i 0) (Dvector junk (n_vars (N cfg)))
           = Some (replicate (n_vars (N cfg)) 0)"
    by (rule for_loop_fill) simp
  have "6 * N cfg \<le> length (replicate (n_vars (N cfg)) (0::real))"
    using n by (simp add: n_vars_def)
  from six_writes [OF n this] show ?thesis
    by (simp only: initial_vars_def Let_def z Option.bind.simps prod.case)
qed

lemma pin_state_eq:
  assumes n: "1 \<le> N cfg" and len: "length bound = n_constraints (N cfg)"
  shows "pin_state cfg (x, y, psi, v, cte, epsi) bound =
     Some (bound[x_start (N cfg) := x, y_start (N cfg) := y, psi_start (N cfg) := psi,
                 v_start (N cfg) := v, cte_start (N cfg) := cte, epsi_start (N cfg) := epsi])"
proof -
  have "6 * N cfg \<le> length bound" using len by (simp add: n_constraints_def)
  from six_writes [OF n this] show ?thesis
    by (simp only: pin_state_def prod.case)
qed

lemma constraints_bounds_eq:
  assumes n: "1 \<le> N cfg"
  shows "\<exists>cl cu. constraints_bounds cfg junk_l junk_u (x, y, psi, v, cte, epsi) = Some (cl, cu) \<and>
     length cl = n_constraints (N cfg) \<and> length cu = n_constraints (N cfg) \<and>
     (\<forall>k<n_constraints (N cfg).
        cl ! k = (if k = x_start (N cfg) then x else if k = y_start (N cfg) then y
                  else if k = psi_start (N cfg) then psi else if k = v_start (N cfg) then v
                  else if k = cte_start (N cfg) then cte else if k = epsi_start (N cfg) then epsi
                  else 0) \<and>
        cu ! k = cl ! k)"
proof -
  let ?m = "n_constraints (N cfg)"
  let ?l0 = "Dvector junk_l ?m" and ?u0 = "Dvector junk_u ?m"
  from for_loop_set_bounds [of 0 ?m ?l0 ?u0 0 0]
  obtain l1 u1 where
    s1: "for_loop 0 ?m (set_bounds 0 0) (?l0, ?u0) = Some (l1, u1)"
    and len1: "length l1 = ?m" "length u1 = ?m"
    and v1: "\<And>k. k < ?m \<Longrightarrow> l1 ! k = 0" "\<And>k. k < ?m \<Longrightarrow> u1 ! k = 0"
    by auto
  let ?l2 = "l1[x_start (N cfg) := x, y_start (N cfg) := y, psi_start (N cfg) := psi,
                 v_start (N cfg) := v, cte_start (N cfg) := cte, epsi_start (N cfg) := epsi]"
  let ?u2 = "u1[x_start (N cfg) := x, y_start (N cfg) := y, psi_start (N cfg) := psi,
                 v_start (N cfg) := v, cte_start (N cfg) := cte, epsi_start (N cfg) := epsi]"
  have p1: "pin_state cfg (x, y, psi, v, cte, epsi) l1 = Some ?l2"
    and p2: "pin_state cfg (x, y, psi, v, cte, epsi) u1 = Some ?u2"
    by (rule pin_state_eq [OF n len1(1)], rule pin_state_eq [OF n len1(2)])
  have run: "constraints_bounds cfg junk_l junk_u (x, y, psi, v, cte, epsi) = Some (?l2, ?u2)"
    by (simp only: constraints_bounds_def Let_def s1 p1 p2 Option.bind.simps prod.case)
  have six: "6 * N cfg \<le> length l1" "6 * N cfg \<le> length u1"
    using len1 by (simp_all add: n_constraints_def)
  have "?l2 ! k = (if k = x_start (N cfg) then x else if k = y_start (N cfg) then y
                  else if k = psi_start (N cfg) then psi else if k = v_start (N cfg) then v
                  else if k = cte_start (N cfg) then cte else if k = epsi_start (N cfg) then epsi
                  else 0)" "?u2 ! k = ?l2 ! k"
    if "k < ?m" for k
    using that len1 v1 by (simp_all only: six_writes_nth [OF n six(1)] six_writes_nth [OF n six(2)])
  moreover have "length ?l2 = ?m" "length ?u2 = ?m" using len1 by simp_all
  ultimately show ?thesis using run by blast
qed

lemma Solve_setup_eq:
  assumes n: "1 \<le> N cfg" and x0: "6 \<le> length x0"
  shows "\<exists>vl vu cl cu.
     Solve_setup cfg junk x0 = Some \<lparr> vars0 = (replicate (n_vars (N cfg)) 0)
             [x_start (N cfg) := x0 ! 0, y_start (N cfg) := x0 ! 1, psi_start (N cfg) := x0 ! 2,
              v_start (N cfg) := x0 ! 3, cte_start (N cfg) := x0 ! 4, epsi_start (N cfg) := x0 ! 5],
        vars_lowerbound = vl, vars_upperbound = vu,
        constraints_lowerbound = cl, constraints_upperbound = cu \<rparr> \<and>
     length vl = n_vars (N cfg) \<and> length vu = n_vars (N cfg) \<and>
     (\<forall>k<n_vars (N cfg).
        vl ! k = (if k < delta_start (N cfg) then - (10 ^ 19)
                  else if k < a_start (N cfg) then - (436332 / 1000000) else - 1) \<and>
        vu ! k = (if k < delta_start (N cfg) then 10 ^ 19
                  else if k < a_start (N cfg) then 436332 / 1000000 else 1)) \<and>
     length cl = n_constraints (N cfg) \<and> length cu = n_constraints (N cfg) \<and>
     (\<forall>k<n_constraints (N cfg).
        cl ! k = (if k = x_start (N cfg) then x0 ! 0 else if k = y_start (N cfg) then x0 ! 1
                  else if k = psi_start (N cfg) then x0 ! 2 else if k = v_start (N cfg) then x0 ! 3
                  else if k = cte_start (N cfg) then x0 ! 4
                  else if k = epsi_start (N cfg) then x0 ! 5 else 0) \<and>
        cu ! k = cl ! k)"
proof -
  from vars_bounds_eq [OF n, of "junk 1" "junk 2"] obtain vl vu where
    vb: "vars_bounds cfg (junk 1) (junk 2) = Some (vl, vu)"
    and vlen: "length vl = n_vars (N cfg)" "length vu = n_vars (N cfg)"
    and vv: "\<forall>k<n_vars (N cfg).
        vl ! k = (if k < delta_start (N cfg) then - (10 ^ 19)
                  else if k < a_start (N cfg) then - (436332 / 1000000) else - 1) \<and>
        vu ! k = (if k < delta_start (N cfg) then 10 ^ 19
                  else if k < a_start (N cfg) then 436332 / 1000000 else 1)"
    by blast
  from constraints_bounds_eq [OF n, of "junk 3" "junk 4" "x0 ! 0" "x0 ! 1" "x0 ! 2" "x0 ! 3" "x0 ! 4" "x0 ! 5"]
  obtain cl cu where
    cb: "constraints_bounds cfg (junk 3) (junk 4) (x0 ! 0, x0 ! 1, x0 ! 2, x0 ! 3, x0 ! 4, x0 ! 5)
         = Some (cl, cu)"
    and clen: "length cl = n_constraints (N cfg)" "length cu = n_constraints (N cfg)"
    and cv: "\<forall>k<n_constraints (N cfg).
        cl ! k = (if k = x_start (N cfg) then x0 ! 0 else if k = y_start (N cfg) then x0 ! 1
                  else if k = psi_start (N cfg) then x0 ! 2 else if k = v_start (N cfg) then x0 ! 3
                  else if k = cte_start (N cfg) then x0 ! 4
                  else if k = epsi_start (N cfg) then x0 ! 5 else 0) \<and>
        cu ! k = cl ! k"
    by blast
  have "Solve_setup cfg junk x0 = Some \<lparr> vars0 = (replicate (n_vars (N cfg)) 0)
             [x_start (N cfg) := x0 ! 0, y_start (N cfg) := x0 ! 1, psi_start (N cfg) := x0 ! 2,
              v_start (N cfg) := x0 ! 3, cte_start (N cfg) := x0 ! 4, epsi_start (N cfg) := x0 ! 5],
        vars_lowerbound = vl, vars_upperbound = vu,
        constraints_lowerbound = cl, constraints_upperbound = cu \<rparr>"
    by (simp only: Solve_setup_def read_state_eq [OF x0] initial_vars_eq [OF n] vb cb
        Option.bind.simps prod.case)
  with vlen vv clen cv show ?thesis by blast
qed

subsection \<open>After the solver has run\<close>

lemma take_drop_snoc:
  "s + i < length xs \<Longrightarrow> take (Suc i) (drop s xs) = take i (drop s xs) @ [xs ! (s + i)]"
  by (simp add: take_Suc_conv_app_nth)

lemma push_trajectory_loop:
  assumes "x_start (N cfg) + N cfg \<le> length sx" "y_start (N cfg) + N cfg \<le> length sx"
  shows "for_loop 0 (N cfg) (push_trajectory cfg sx) (mpc_x, mpc_y) =
     Some (mpc_x @ take (N cfg) (drop (x_start (N cfg)) sx),
           mpc_y @ take (N cfg) (drop (y_start (N cfg)) sx))"
proof -
  let ?P = "\<lambda>i t. t = (mpc_x @ take i (drop (x_start (N cfg)) sx),
                         mpc_y @ take i (drop (y_start (N cfg)) sx))"
  have "\<exists>s'. for_loop 0 (N cfg) (push_trajectory cfg sx) (mpc_x, mpc_y) = Some s' \<and> ?P (N cfg) s'"
  proof (rule for_loop_invariant [where P = ?P])
    show "?P 0 (mpc_x, mpc_y)" by simp
    show "0 \<le> N cfg" by simp
  next
    fix i t
    assume i: "i < N cfg" and t: "?P i t"
    have b: "x_start (N cfg) + i < length sx" "y_start (N cfg) + i < length sx"
      using assms i by simp_all
    have "push_trajectory cfg sx i t =
        Some (mpc_x @ take i (drop (x_start (N cfg)) sx) @ [sx ! (x_start (N cfg) + i)],
              mpc_y @ take i (drop (y_start (N cfg)) sx) @ [sx ! (y_start (N cfg) + i)])"
      using b by (simp add: push_trajectory_def t)
    then show "\<exists>t'. push_trajectory cfg sx i t = Some t' \<and> ?P (Suc i) t'"
      using b by (simp add: take_drop_snoc)
  qed
  then show ?thesis by simp
qed

lemma read_back_eq:
  assumes "2 \<le> N cfg" "length sx = n_vars (N cfg)"
  shows "read_back cfg sx cost =
     Some [sx ! (x_start (N cfg) + 1), sx ! (y_start (N cfg) + 1), sx ! (psi_start (N cfg) + 1),
           sx ! (v_start (N cfg) + 1), sx ! (cte_start (N cfg) + 1), sx ! (epsi_start (N cfg) + 1),
           sx ! delta_start (N cfg), sx ! a_start (N cfg), cost]"
proof -
  have b: "x_start (N cfg) + 1 < length sx" "y_start (N cfg) + 1 < length sx"
    "psi_start (N cfg) + 1 < length sx" "v_start (N cfg) + 1 < length sx"
    "cte_start (N cfg) + 1 < length sx" "epsi_start (N cfg) + 1 < length sx"
    "delta_start (N cfg) < length sx" "a_start (N cfg) < length sx"
    using assms by (auto simp: starts_defs n_vars_def)
  show ?thesis
    by (simp only: read_back_def rd_Some b Option.bind.simps)
qed

lemma Solve_run:
  assumes n: "2 \<le> N cfg"
    and stp: "Solve_setup cfg junk x0 = Some p"
    and sol: "solve options (vars0 p) (vars_lowerbound p) (vars_upperbound p)
                (constraints_lowerbound p) (constraints_upperbound p) (FG_eval cfg coeffs) = sol"
    and len: "length (solution_x sol) = n_vars (N cfg)"
  shows "Solve cfg junk solve x0 coeffs mpc_x mpc_y =
     (if status sol \<noteq> success then Exited EXIT_FAILURE
      else Returned
        ([solution_x sol ! (x_start (N cfg) + 1), solution_x sol ! (y_start (N cfg) + 1),
          solution_x sol ! (psi_start (N cfg) + 1), solution_x sol ! (v_start (N cfg) + 1),
          solution_x sol ! (cte_start (N cfg) + 1), solution_x sol ! (epsi_start (N cfg) + 1),
          solution_x sol ! delta_start (N cfg), solution_x sol ! a_start (N cfg),
          obj_value sol],
         mpc_x @ take (N cfg) (drop (x_start (N cfg)) (solution_x sol)),
         mpc_y @ take (N cfg) (drop (y_start (N cfg)) (solution_x sol))))"
proof -
  have b: "x_start (N cfg) + N cfg \<le> length (solution_x sol)"
    "y_start (N cfg) + N cfg \<le> length (solution_x sol)"
    using n len by (simp_all add: starts_defs n_vars_def)
  show ?thesis
    unfolding Solve_def stp option.case sol Let_def
      push_trajectory_loop [OF b] prod.case read_back_eq [OF n len]
    by simp
qed

text \<open>Whatever the solver and the solution, \<open>Solve\<close> returns only after a success status.\<close>

lemma Solve_returns_only_on_success:
  assumes "Solve cfg junk solve x0 coeffs mpc_x mpc_y = Returned r"
  shows "\<exists>p. Solve_setup cfg junk x0 = Some p \<and>
           status (solve options (vars0 p) (vars_lowerbound p) (vars_upperbound p)
                     (constraints_lowerbound p) (constraints_upperbound p) (FG_eval cfg coeffs))
             = success"
  using assms
  by (auto simp: Solve_def Let_def split: option.splits prod.splits if_splits)

section \<open>Claims about the controller\<close>

text \<open>
  Claim C4. For every horizon with \<open>N \<ge> 2\<close> (and any \<open>dt\<close>) the decision vector and its two
  bound vectors built by \<^verbatim>\<open>MPC::Solve\<close> have length \<open>6 * N + 2 * (N - 1)\<close>, the two
  constraint-bound vectors have length \<open>6 * N\<close>, and the block offsets are the multiples
  \<open>0, N, \<dots>, 6 * N\<close> and \<open>6 * N + (N - 1)\<close>: functions of \<open>N\<close> alone.
\<close>

theorem decision_vector_layout:
  assumes "2 \<le> N cfg" "6 \<le> length x0"
  shows "\<exists>p. Solve_setup cfg junk x0 = Some p \<and>
     length (vars0 p) = 6 * N cfg + 2 * (N cfg - 1) \<and>
     length (vars_lowerbound p) = 6 * N cfg + 2 * (N cfg - 1) \<and>
     length (vars_upperbound p) = 6 * N cfg + 2 * (N cfg - 1) \<and>
     length (constraints_lowerbound p) = 6 * N cfg \<and>
     length (constraints_upperbound p) = 6 * N cfg \<and>
     x_start (N cfg) = 0 \<and> y_start (N cfg) = N cfg \<and> psi_start (N cfg) = 2 * N cfg \<and>
     v_start (N cfg) = 3 * N cfg \<and> cte_start (N cfg) = 4 * N cfg \<and>
     epsi_start (N cfg) = 5 * N cfg \<and> delta_start (N cfg) = 6 * N cfg \<and>
     a_start (N cfg) = 6 * N cfg + (N cfg - 1)"
proof -
  have n: "1 \<le> N cfg" using assms(1) by simp
  from Solve_setup_eq [OF n assms(2), of junk] obtain p where
    "Solve_setup cfg junk x0 = Some p"
    "length (vars0 p) = n_vars (N cfg)"
    "length (vars_lowerbound p) = n_vars (N cfg)" "length (vars_upperbound p) = n_vars (N cfg)"
    "length (constraints_lowerbound p) = n_constraints (N cfg)"
    "length (constraints_upperbound p) = n_constraints (N cfg)"
    by auto
  moreover have "n_vars (N cfg) = 6 * N cfg + 2 * (N cfg - 1)" "n_constraints (N cfg) = 6 * N cfg"
    by (simp_all add: n_vars_def n_constraints_def)
  moreover have "x_start (N cfg) = 0" "y_start (N cfg) = N cfg" "psi_start (N cfg) = 2 * N cfg"
    "v_start (N cfg) = 3 * N cfg" "cte_start (N cfg) = 4 * N cfg"
    "epsi_start (N cfg) = 5 * N cfg" "delta_start (N cfg) = 6 * N cfg"
    "a_start (N cfg) = 6 * N cfg + (N cfg - 1)"
    using n by (simp_all add: starts_defs)
  ultimately show ?thesis by (intro exI [of _ p]) simp
qed

text \<open>The shipped horizon of 25 steps: 198 variables and 150 constraints.\<close>

theorem decision_vector_layout_witness:
  "2 \<le> N shipped \<and> 6 \<le> length state0 \<and>
   (\<exists>p. Solve_setup shipped (\<lambda>k i. 0) state0 = Some p \<and>
        length (vars0 p) = 198 \<and> length (vars_lowerbound p) = 198 \<and>
        length (vars_upperbound p) = 198 \<and>
        length (constraints_lowerbound p) = 150 \<and> length (constraints_upperbound p) = 150 \<and>
        delta_start (N shipped) = 150 \<and> a_start (N shipped) = 174)"
proof -
  have h: "2 \<le> N shipped" "6 \<le> length state0"
    by (simp_all add: shipped_def state0_def)
  from decision_vector_layout [OF h, of "\<lambda>k i. 0"] h show ?thesis
    by (auto simp: shipped_values)
qed

text \<open>
  Claim C5. The lower and the upper constraint bound built by \<^verbatim>\<open>MPC::Solve\<close> agree in
  every entry; the entry at the start of each of the six state blocks is the matching
  component of the input state, every other entry is zero.
\<close>

theorem initial_state_pinned:
  assumes "2 \<le> N cfg" "6 \<le> length x0"
  shows "\<exists>p. Solve_setup cfg junk x0 = Some p \<and>
     length (constraints_lowerbound p) = 6 * N cfg \<and>
     length (constraints_upperbound p) = 6 * N cfg \<and>
     (\<forall>k<6 * N cfg.
        constraints_lowerbound p ! k =
          (if k = x_start (N cfg) then x0 ! 0 else if k = y_start (N cfg) then x0 ! 1
           else if k = psi_start (N cfg) then x0 ! 2 else if k = v_start (N cfg) then x0 ! 3
           else if k = cte_start (N cfg) then x0 ! 4 else if k = epsi_start (N cfg) then x0 ! 5
           else 0) \<and>
        constraints_upperbound p ! k = constraints_lowerbound p ! k)"
proof -
  have n: "1 \<le> N cfg" using assms(1) by simp
  have m: "n_constraints (N cfg) = 6 * N cfg" by (simp add: n_constraints_def)
  from Solve_setup_eq [OF n assms(2), of junk] show ?thesis
    unfolding m by force
qed

text \<open>The shipped horizon: entry 75 pins the speed 10, entry 100 the cross-track error 1.\<close>

theorem initial_state_pinned_witness:
  "2 \<le> N shipped \<and> 6 \<le> length state0 \<and>
   (\<exists>p. Solve_setup shipped (\<lambda>k i. 0) state0 = Some p \<and>
        constraints_lowerbound p ! 75 = 10 \<and> constraints_upperbound p ! 75 = 10 \<and>
        constraints_lowerbound p ! 100 = 1 \<and> constraints_upperbound p ! 100 = 1 \<and>
        constraints_lowerbound p ! 76 = 0 \<and> constraints_upperbound p ! 76 = 0)"
proof -
  have h: "2 \<le> N shipped" "6 \<le> length state0"
    by (simp_all add: shipped_def state0_def)
  from initial_state_pinned [OF h, of "\<lambda>k i. 0"] obtain p where
    s: "Solve_setup shipped (\<lambda>k i. 0) state0 = Some p"
    and b: "\<And>k. k < 6 * N shipped \<Longrightarrow>
        constraints_lowerbound p ! k =
          (if k = x_start (N shipped) then state0 ! 0 else if k = y_start (N shipped) then state0 ! 1
           else if k = psi_start (N shipped) then state0 ! 2
           else if k = v_start (N shipped) then state0 ! 3
           else if k = cte_start (N shipped) then state0 ! 4
           else if k = epsi_start (N shipped) then state0 ! 5
           else 0) \<and>
        constraints_upperbound p ! k = constraints_lowerbound p ! k"
    by blast
  from b [of 75] b [of 100] b [of 76] s h show ?thesis
    by (simp add: shipped_values state0_def)
qed

text \<open>
  Claim C6. Every state entry of the variable bounds is \<open>-1.0e19\<close> below and \<open>1.0e19\<close>
  above (the solver's values for no bound), every steering entry \<open>-0.436332\<close> and
  \<open>0.436332\<close>, every acceleration entry \<open>-1\<close> and \<open>1\<close>; each lower bound is the negated
  upper bound.
\<close>

theorem variable_bounds:
  assumes "2 \<le> N cfg" "6 \<le> length x0"
  shows "\<exists>p. Solve_setup cfg junk x0 = Some p \<and>
     length (vars_lowerbound p) = n_vars (N cfg) \<and>
     length (vars_upperbound p) = n_vars (N cfg) \<and>
     (\<forall>k<n_vars (N cfg).
        (k < delta_start (N cfg) \<longrightarrow>
           vars_lowerbound p ! k = - (10 ^ 19) \<and> vars_upperbound p ! k = 10 ^ 19) \<and>
        (delta_start (N cfg) \<le> k \<and> k < a_start (N cfg) \<longrightarrow>
           vars_lowerbound p ! k = - (436332 / 1000000) \<and>
           vars_upperbound p ! k = 436332 / 1000000) \<and>
        (a_start (N cfg) \<le> k \<longrightarrow>
           vars_lowerbound p ! k = - 1 \<and> vars_upperbound p ! k = 1) \<and>
        vars_lowerbound p ! k = - vars_upperbound p ! k)"
proof -
  have n: "1 \<le> N cfg" using assms(1) by simp
  from Solve_setup_eq [OF n assms(2), of junk] obtain p where
    s: "Solve_setup cfg junk x0 = Some p"
    and len: "length (vars_lowerbound p) = n_vars (N cfg)"
      "length (vars_upperbound p) = n_vars (N cfg)"
    and v: "\<And>k. k < n_vars (N cfg) \<Longrightarrow>
        vars_lowerbound p ! k = (if k < delta_start (N cfg) then - (10 ^ 19)
                  else if k < a_start (N cfg) then - (436332 / 1000000) else - 1) \<and>
        vars_upperbound p ! k = (if k < delta_start (N cfg) then 10 ^ 19
                  else if k < a_start (N cfg) then 436332 / 1000000 else 1)"
    by auto
  have o: "delta_start (N cfg) \<le> a_start (N cfg)" by (rule starts_order [OF n])
  have "(k < delta_start (N cfg) \<longrightarrow>
           vars_lowerbound p ! k = - (10 ^ 19) \<and> vars_upperbound p ! k = 10 ^ 19) \<and>
        (delta_start (N cfg) \<le> k \<and> k < a_start (N cfg) \<longrightarrow>
           vars_lowerbound p ! k = - (436332 / 1000000) \<and>
           vars_upperbound p ! k = 436332 / 1000000) \<and>
        (a_start (N cfg) \<le> k \<longrightarrow>
           vars_lowerbound p ! k = - 1 \<and> vars_upperbound p ! k = 1) \<and>
        vars_lowerbound p ! k = - vars_upperbound p ! k"
    if "k < n_vars (N cfg)" for k
    using v [OF that] o by auto
  with s len show ?thesis by blast
qed

text \<open>The shipped horizon: the last state entry is 149, steering is 150 to 173, acceleration 174 to 197.\<close>

theorem variable_bounds_witness:
  "2 \<le> N shipped \<and> 6 \<le> length state0 \<and>
   (\<exists>p. Solve_setup shipped (\<lambda>k i. 0) state0 = Some p \<and>
        vars_lowerbound p ! 149 = - (10 ^ 19) \<and> vars_upperbound p ! 149 = 10 ^ 19 \<and>
        vars_lowerbound p ! 150 = - (436332 / 1000000) \<and>
        vars_upperbound p ! 173 = 436332 / 1000000 \<and>
        vars_lowerbound p ! 174 = - 1 \<and> vars_upperbound p ! 197 = 1)"
proof -
  have h: "2 \<le> N shipped" "6 \<le> length state0"
    by (simp_all add: shipped_def state0_def)
  from variable_bounds [OF h, of "\<lambda>k i. 0"] obtain p where
    s: "Solve_setup shipped (\<lambda>k i. 0) state0 = Some p"
    and b: "\<And>k. k < n_vars (N shipped) \<Longrightarrow>
        (k < delta_start (N shipped) \<longrightarrow>
           vars_lowerbound p ! k = - (10 ^ 19) \<and> vars_upperbound p ! k = 10 ^ 19) \<and>
        (delta_start (N shipped) \<le> k \<and> k < a_start (N shipped) \<longrightarrow>
           vars_lowerbound p ! k = - (436332 / 1000000) \<and>
           vars_upperbound p ! k = 436332 / 1000000) \<and>
        (a_start (N shipped) \<le> k \<longrightarrow>
           vars_lowerbound p ! k = - 1 \<and> vars_upperbound p ! k = 1) \<and>
        vars_lowerbound p ! k = - vars_upperbound p ! k"
    by blast
  from b [of 149] b [of 150] b [of 173] b [of 174] b [of 197] s h show ?thesis
    by (simp add: shipped_values)
qed

text \<open>
  Claim C7. When the solver reports success and a solution of the length of the decision
  vector, \<^verbatim>\<open>MPC::Solve\<close> returns the entry at index 1 of each of the six state blocks,
  then the entries at \<open>delta_start\<close> and \<open>a_start\<close>, then the objective value, and it
  appends the \<open>N\<close> entries of the x block to \<^verbatim>\<open>mpc_x\<close> and those of the y block to
  \<^verbatim>\<open>mpc_y\<close>.
\<close>

theorem Solve_reads_back:
  assumes "2 \<le> N cfg"
    and "Solve_setup cfg junk x0 = Some p"
    and "solve options (vars0 p) (vars_lowerbound p) (vars_upperbound p)
           (constraints_lowerbound p) (constraints_upperbound p) (FG_eval cfg coeffs) = sol"
    and "status sol = success"
    and "length (solution_x sol) = n_vars (N cfg)"
  shows "Solve cfg junk solve x0 coeffs mpc_x mpc_y =
     Returned
       ([solution_x sol ! (x_start (N cfg) + 1), solution_x sol ! (y_start (N cfg) + 1),
         solution_x sol ! (psi_start (N cfg) + 1), solution_x sol ! (v_start (N cfg) + 1),
         solution_x sol ! (cte_start (N cfg) + 1), solution_x sol ! (epsi_start (N cfg) + 1),
         solution_x sol ! delta_start (N cfg), solution_x sol ! a_start (N cfg),
         obj_value sol],
        mpc_x @ take (N cfg) (drop (x_start (N cfg)) (solution_x sol)),
        mpc_y @ take (N cfg) (drop (y_start (N cfg)) (solution_x sol)))"
  using Solve_run [where solve = solve and p = p and sol = sol, OF assms(1,2,3,5), of mpc_x mpc_y]
    assms(4)
  by simp

text \<open>A run at the short horizon with the solution \<open>[0, 1, \<dots>, 21]\<close>.\<close>

theorem Solve_reads_back_witness:
  "2 \<le> N horizon3 \<and>
   (\<exists>p. Solve_setup horizon3 (\<lambda>k i. 0) state0 = Some p) \<and>
   status (fixed_solver success solution3 58 options [] [] [] [] [] (FG_eval horizon3 [1, 0, 0, 0]))
     = success \<and>
   length solution3 = n_vars (N horizon3) \<and>
   Solve horizon3 (\<lambda>k i. 0) (fixed_solver success solution3 58) state0 [1, 0, 0, 0] [] [] =
     Returned ([1, 4, 7, 10, 13, 16, 18, 20, 58], [0, 1, 2], [3, 4, 5])"
proof -
  have n: "2 \<le> N horizon3" "1 \<le> N horizon3" by (simp_all add: horizon3_values)
  have x: "6 \<le> length state0" by (simp add: state0_def)
  from Solve_setup_eq [OF n(2) x, of "\<lambda>k i. 0"] obtain p where
    p: "Solve_setup horizon3 (\<lambda>k i. 0) state0 = Some p" by blast
  have l: "length solution3 = n_vars (N horizon3)"
    by (simp add: solution3_def horizon3_values)
  have "Solve horizon3 (\<lambda>k i. 0) (fixed_solver success solution3 58) state0 [1, 0, 0, 0] [] [] =
     Returned ([1, 4, 7, 10, 13, 16, 18, 20, 58], [0, 1, 2], [3, 4, 5])"
    using Solve_reads_back [where solve = "fixed_solver success solution3 58"
        and sol = "\<lparr> status = success, solution_x = solution3, obj_value = 58 \<rparr>"
        and coeffs = "[1, 0, 0, 0]" and mpc_x = "[]" and mpc_y = "[]", OF n(1) p] l
    by (simp add: fixed_solver_def horizon3_values solution3_def)
  with n p l show ?thesis by (auto simp: fixed_solver_def)
qed

text \<open>
  Claim C1, as the source has it. When the solver reports a status other than success
  (and a solution of the length of the decision vector), \<^verbatim>\<open>MPC::Solve\<close> does not return
  to its caller: the call ends the process with \<^verbatim>\<open>exit(EXIT_FAILURE)\<close>, and no value,
  hence no failure carrying the solver status, is handed back. By
  \<open>Solve_returns_only_on_success\<close> the function returns only after a success status.
\<close>

theorem Solve_exits_on_failure:
  assumes "2 \<le> N cfg"
    and "Solve_setup cfg junk x0 = Some p"
    and "solve options (vars0 p) (vars_lowerbound p) (vars_upperbound p)
           (constraints_lowerbound p) (constraints_upperbound p) (FG_eval cfg coeffs) = sol"
    and "status sol \<noteq> success"
    and "length (solution_x sol) = n_vars (N cfg)"
  shows "Solve cfg junk solve x0 coeffs mpc_x mpc_y = Exited EXIT_FAILURE"
  using Solve_run [where solve = solve and p = p and sol = sol, OF assms(1,2,3,5), of mpc_x mpc_y]
    assms(4)
  by simp

text \<open>The shipped horizon with a solver that reports local infeasibility.\<close>

theorem Solve_exits_on_failure_witness:
  "2 \<le> N shipped \<and>
   (\<exists>p. Solve_setup shipped (\<lambda>k i. 0) state0 = Some p) \<and>
   status (fixed_solver local_infeasibility (replicate 198 0) 0 options [] [] [] [] []
             (FG_eval shipped [1, 0, 0, 0])) \<noteq> success \<and>
   length (replicate 198 (0::real)) = n_vars (N shipped) \<and>
   Solve shipped (\<lambda>k i. 0) (fixed_solver local_infeasibility (replicate 198 0) 0) state0
     [1, 0, 0, 0] [] [] = Exited EXIT_FAILURE"
proof -
  have n: "2 \<le> N shipped" "1 \<le> N shipped" by (simp_all add: shipped_values)
  have x: "6 \<le> length state0" by (simp add: state0_def)
  from Solve_setup_eq [OF n(2) x, of "\<lambda>k i. 0"] obtain p where
    p: "Solve_setup shipped (\<lambda>k i. 0) state0 = Some p" by blast
  have l: "length (replicate 198 (0::real)) = n_vars (N shipped)"
    by (simp add: shipped_values)
  have "Solve shipped (\<lambda>k i. 0) (fixed_solver local_infeasibility (replicate 198 0) 0) state0
     [1, 0, 0, 0] [] [] = Exited EXIT_FAILURE"
    by (rule Solve_exits_on_failure [where
          sol = "\<lparr> status = local_infeasibility, solution_x = replicate 198 0, obj_value = 0 \<rparr>",
          OF n(1) p])
      (simp_all add: fixed_solver_def shipped_values)
  with n p l show ?thesis by (auto simp: fixed_solver_def)
qed

text \<open>
  The call below, with a solver that reports \<^verbatim>\<open>maxiter_exceeded\<close>, ends the process; the
  caller receives neither a failure value nor the solver status.
\<close>

theorem Solve_typed_failure_counterexample:
  "Solve horizon3 (\<lambda>k i. 0) (fixed_solver maxiter_exceeded solution3 58) state0 [1, 0, 0, 0] [] []
     = Exited EXIT_FAILURE"
proof -
  have n: "2 \<le> N horizon3" "1 \<le> N horizon3" by (simp_all add: horizon3_values)
  have x: "6 \<le> length state0" by (simp add: state0_def)
  from Solve_setup_eq [OF n(2) x, of "\<lambda>k i. 0"] obtain p where
    p: "Solve_setup horizon3 (\<lambda>k i. 0) state0 = Some p" by blast
  have l: "length solution3 = n_vars (N horizon3)"
    by (simp add: solution3_def horizon3_values)
  show ?thesis
    using Solve_run [where solve = "fixed_solver maxiter_exceeded solution3 58"
        and sol = "\<lparr> status = maxiter_exceeded, solution_x = solution3, obj_value = 58 \<rparr>"
        and coeffs = "[1, 0, 0, 0]" and mpc_x = "[]" and mpc_y = "[]", OF n(1) p] l
    by (simp add: fixed_solver_def)
qed

section \<open>The coordinate transform\<close>

lemma transform_loop:
  assumes "length xvals \<le> length yvals"
  shows "transform_map_coord xvals yvals vx vy th =
     Some (map (\<lambda>(x, y). - (x - vx) * sin (th - pi / 2) + (y - vy) * cos (th - pi / 2))
             (zip xvals yvals),
           map (\<lambda>(x, y). - (x - vx) * cos (th - pi / 2) - (y - vy) * sin (th - pi / 2))
             (zip xvals yvals))"
proof -
  let ?fx = "\<lambda>(x, y). - (x - vx) * sin (th - pi / 2) + (y - vy) * cos (th - pi / 2)"
  let ?fy = "\<lambda>(x, y). - (x - vx) * cos (th - pi / 2) - (y - vy) * sin (th - pi / 2)"
  let ?zs = "zip xvals yvals"
  let ?P = "\<lambda>i t. t = (map ?fx (take i ?zs), map ?fy (take i ?zs))"
  have "\<exists>s'. for_loop 0 (length xvals) (transform_point xvals yvals vx vy th) ([], []) = Some s'
          \<and> ?P (length xvals) s'"
  proof (rule for_loop_invariant [where P = ?P])
    show "?P 0 ([], [])" by simp
    show "0 \<le> length xvals" by simp
  next
    fix i t
    assume i: "i < length xvals" and t: "?P i t"
    have b: "i < length yvals" "i < length ?zs" using i assms by simp_all
    have tk: "take (Suc i) ?zs = take i ?zs @ [(xvals ! i, yvals ! i)]"
      using b i by (simp add: take_Suc_conv_app_nth)
    show "\<exists>t'. transform_point xvals yvals vx vy th i t = Some t' \<and> ?P (Suc i) t'"
      using i b by (simp add: transform_point_def t tk Let_def)
  qed
  then show ?thesis
    using assms by (simp add: transform_map_coord_def)
qed

lemma transform_out_of_range:
  assumes "length yvals < length xvals"
  shows "transform_map_coord xvals yvals vx vy th = None"
proof -
  have "for_loop i (length xvals) (transform_point xvals yvals vx vy th) t = None"
    if "i \<le> length yvals" for i t
    using that
  proof (induction "length yvals - i" arbitrary: i t)
    case 0
    then have "i = length yvals" by simp
    then have "transform_point xvals yvals vx vy th i t = None"
      by (cases t) (simp add: transform_point_def Let_def)
    then show ?case using assms \<open>i = length yvals\<close> by (simp add: for_loop_first_None)
  next
    case (Suc d)
    then have i: "i < length yvals" "i < length xvals" using assms by simp_all
    obtain tx ty where t: "t = (tx, ty)" by (cases t)
    have "\<exists>t'. transform_point xvals yvals vx vy th i t = Some t'"
      using i by (simp add: transform_point_def Let_def t)
    then obtain t' where s: "transform_point xvals yvals vx vy th i t = Some t'" by blast
    have "for_loop (Suc i) (length xvals) (transform_point xvals yvals vx vy th) t' = None"
      using Suc.hyps(1) [of "Suc i" t'] Suc.hyps(2) i by simp
    then show ?case using i s by (simp add: for_loop_step)
  qed
  from this [of 0 "([], [])"] show ?thesis by (simp add: transform_map_coord_def)
qed

lemma zip_map_same: "zip (map f zs) (map g zs) = map (\<lambda>z. (f z, g z)) zs"
  by (induction zs) simp_all

lemma rotate_back:
  fixes c s dx dy :: real
  assumes "s * s + c * c = 1"
  shows "- (- dx * s + dy * c) * s - (- dx * c - dy * s) * c = dx"
    and "(- dx * s + dy * c) * c - (- dx * c - dy * s) * s = dy"
proof -
  have "- (- dx * s + dy * c) * s - (- dx * c - dy * s) * c = dx * (s * s + c * c)"
    by (simp add: algebra_simps)
  then show "- (- dx * s + dy * c) * s - (- dx * c - dy * s) * c = dx"
    by (simp only: assms mult_1_right)
  have "(- dx * s + dy * c) * c - (- dx * c - dy * s) * s = dy * (s * s + c * c)"
    by (simp add: algebra_simps)
  then show "(- dx * s + dy * c) * c - (- dx * c - dy * s) * s = dy"
    by (simp only: assms mult_1_right)
qed

lemma inverse_after_transform:
  "spec_inverse_point vx vy th
     (- (x - vx) * sin (th - pi / 2) + (y - vy) * cos (th - pi / 2),
      - (x - vx) * cos (th - pi / 2) - (y - vy) * sin (th - pi / 2)) = (x, y)"
proof -
  have one: "sin (th - pi / 2) * sin (th - pi / 2) + cos (th - pi / 2) * cos (th - pi / 2) = 1"
    using sin_cos_squared_add [of "th - pi / 2"] by (simp only: power2_eq_square)
  show ?thesis
    unfolding spec_inverse_point_def Let_def prod.case rotate_back [OF one]
    by (simp only: diff_add_cancel)
qed

text \<open>
  The angle \<open>vehicle_theta - pi / 2\<close> enters through its sine and cosine only; the map
  is the rotation of the translated point by \<open>- vehicle_theta\<close>.
\<close>

lemma transform_rotates_by_minus_theta:
  fixes dx dy th :: real
  shows "- dx * sin (th - pi / 2) + dy * cos (th - pi / 2) = dx * cos th + dy * sin th"
    and "- dx * cos (th - pi / 2) - dy * sin (th - pi / 2) = - dx * sin th + dy * cos th"
  by (simp_all add: sin_diff cos_diff)

text \<open>
  Claim C9. For waypoints given as equally long coordinate vectors and every vehicle pose,
  the transform succeeds, and applying the inverse rotation and then the inverse translation
  to each transformed point gives back the original world coordinates. In exact real arithmetic
  the round trip is an equality.
\<close>

theorem transform_is_invertible:
  assumes "length xvals = length yvals"
  shows "\<exists>tx ty. transform_map_coord xvals yvals vehicle_x vehicle_y vehicle_theta = Some (tx, ty) \<and>
           length tx = length xvals \<and> length ty = length yvals \<and>
           map (spec_inverse_point vehicle_x vehicle_y vehicle_theta) (zip tx ty) = zip xvals yvals"
proof -
  let ?fx = "\<lambda>(x, y). - (x - vehicle_x) * sin (vehicle_theta - pi / 2)
                       + (y - vehicle_y) * cos (vehicle_theta - pi / 2)"
  let ?fy = "\<lambda>(x, y). - (x - vehicle_x) * cos (vehicle_theta - pi / 2)
                       - (y - vehicle_y) * sin (vehicle_theta - pi / 2)"
  let ?zs = "zip xvals yvals"
  have run: "transform_map_coord xvals yvals vehicle_x vehicle_y vehicle_theta
             = Some (map ?fx ?zs, map ?fy ?zs)"
    using assms by (intro transform_loop) simp
  have "zip (map ?fx ?zs) (map ?fy ?zs) = map (\<lambda>z. (?fx z, ?fy z)) ?zs"
    by (rule zip_map_same)
  then have "map (spec_inverse_point vehicle_x vehicle_y vehicle_theta) (zip (map ?fx ?zs) (map ?fy ?zs))
             = map (\<lambda>z. z) ?zs"
    by (simp only: list.map_comp comp_def split_beta fst_conv snd_conv inverse_after_transform
        prod.collapse)
  then show ?thesis
    using run assms by simp
qed

text \<open>Two waypoints seen from the pose \<open>(1, 1)\<close> with heading \<open>pi / 2\<close>.\<close>

theorem transform_is_invertible_witness:
  "length [1, 2 :: real] = length [3, 4 :: real] \<and>
   (\<exists>tx ty. transform_map_coord [1, 2] [3, 4] 1 1 (pi / 2) = Some (tx, ty) \<and>
            length tx = 2 \<and> length ty = 2 \<and>
            map (spec_inverse_point 1 1 (pi / 2)) (zip tx ty) = [(1, 3), (2, 4)])"
  using transform_is_invertible [of "[1, 2]" "[3, 4]" 1 1 "pi / 2"] by (auto simp: numeral_2_eq_2)

section \<open>The polynomial fit\<close>

lemma mat_rd_eq: "r < length A \<Longrightarrow> c < length (A ! r) \<Longrightarrow> mat_rd A r c = Some (A ! r ! c)"
  by (simp add: mat_rd_def)

lemma mat_wr_eq:
  "r < length A \<Longrightarrow> c < length (A ! r) \<Longrightarrow> mat_wr A r c v = Some (A[r := (A ! r)[c := v]])"
  by (simp add: mat_wr_def)

lemma length_MatrixXd [simp]: "length (MatrixXd junk rows cols) = rows"
  by (simp add: MatrixXd_def)

lemma length_row_MatrixXd [simp]: "r < rows \<Longrightarrow> length (MatrixXd junk rows cols ! r) = cols"
  by (simp add: MatrixXd_def)

lemma first_column_loop:
  assumes shape: "length A = rows" "\<forall>r<rows. length (A ! r) = Suc m"
  shows "\<exists>A'. for_loop 0 rows (\<lambda>i A. mat_wr A i 0 1) A = Some A' \<and>
           length A' = rows \<and> (\<forall>r<rows. length (A' ! r) = Suc m) \<and> (\<forall>r<rows. A' ! r ! 0 = 1)"
proof (rule for_loop_invariant
    [where P = "\<lambda>i A'. length A' = rows \<and> (\<forall>r<rows. length (A' ! r) = Suc m) \<and>
                       (\<forall>r<i. A' ! r ! 0 = 1)"])
  show "length A = rows \<and> (\<forall>r<rows. length (A ! r) = Suc m) \<and> (\<forall>r<0. A ! r ! 0 = 1)"
    using shape by simp
  show "0 \<le> rows" by simp
next
  fix i and t :: "real list list"
  assume i: "i < rows"
    and P: "length t = rows \<and> (\<forall>r<rows. length (t ! r) = Suc m) \<and> (\<forall>r<i. t ! r ! 0 = 1)"
  have "mat_wr t i 0 1 = Some (t[i := (t ! i)[0 := 1]])"
    using i P by (intro mat_wr_eq) simp_all
  moreover have "length (t[i := (t ! i)[0 := 1]]) = rows" using P by simp
  moreover have "\<forall>r<rows. length (t[i := (t ! i)[0 := 1]] ! r) = Suc m"
    using P i by (auto simp: nth_list_update)
  moreover have "length (t ! i) = Suc m" using P i by simp
  then have "(t ! i)[0 := 1::real] ! 0 = 1" by simp
  then have "\<forall>r<Suc i. t[i := (t ! i)[0 := 1]] ! r ! 0 = 1"
    using P i by (auto simp: nth_list_update less_Suc_eq)
  ultimately show "\<exists>t'. mat_wr t i 0 1 = Some t' \<and> length t' = rows \<and>
      (\<forall>r<rows. length (t' ! r) = Suc m) \<and> (\<forall>r<Suc i. t' ! r ! 0 = 1)"
    by blast
qed

lemma powers_row_loop:
  assumes j: "j < length xvals"
    and shape: "length A = length xvals" "\<forall>r<length xvals. length (A ! r) = Suc m"
    and ones: "\<forall>r<length xvals. A ! r ! 0 = 1"
    and prev: "\<forall>r<j. \<forall>k\<le>m. A ! r ! k = xvals ! r ^ k"
  shows "\<exists>A'. for_loop 0 m (power_step xvals j) A = Some A' \<and>
           length A' = length xvals \<and> (\<forall>r<length xvals. length (A' ! r) = Suc m) \<and>
           (\<forall>r<length xvals. A' ! r ! 0 = 1) \<and>
           (\<forall>r<Suc j. \<forall>k\<le>m. A' ! r ! k = xvals ! r ^ k)"
proof -
  let ?Q = "\<lambda>i A'. length A' = length xvals \<and> (\<forall>r<length xvals. length (A' ! r) = Suc m) \<and>
           (\<forall>r<length xvals. A' ! r ! 0 = 1) \<and>
           (\<forall>r<j. \<forall>k\<le>m. A' ! r ! k = xvals ! r ^ k) \<and>
           (\<forall>k\<le>i. A' ! j ! k = xvals ! j ^ k)"
  have "\<exists>A'. for_loop 0 m (power_step xvals j) A = Some A' \<and> ?Q m A'"
  proof (rule for_loop_invariant [where P = ?Q])
    show "?Q 0 A" using assms by simp
    show "0 \<le> m" by simp
  next
    fix i and t :: "real list list"
    assume i: "i < m" and Q: "?Q i t"
    let ?t' = "t[j := (t ! j)[i + 1 := t ! j ! i * xvals ! j]]"
    have lj: "j < length t" "i < length (t ! j)" "i + 1 < length (t ! j)"
      using Q i j by simp_all
    have step: "power_step xvals j i t = Some ?t'"
      using j by (simp only: power_step_def mat_rd_eq [OF lj(1,2)] rd_Some
          mat_wr_eq [OF lj(1,3)] Option.bind.simps)
    have "length ?t' = length xvals" using Q by simp
    moreover have "\<forall>r<length xvals. length (?t' ! r) = Suc m"
      using Q lj by (auto simp: nth_list_update)
    moreover have "\<forall>r<length xvals. ?t' ! r ! 0 = 1"
      using Q lj by (auto simp: nth_list_update)
    moreover have "\<forall>r<j. \<forall>k\<le>m. ?t' ! r ! k = xvals ! r ^ k"
      using Q lj by (auto simp: nth_list_update)
    moreover have "\<forall>k\<le>Suc i. ?t' ! j ! k = xvals ! j ^ k"
    proof (intro allI impI)
      fix k assume k: "k \<le> Suc i"
      show "?t' ! j ! k = xvals ! j ^ k"
      proof (cases "k = Suc i")
        case True
        have "t ! j ! i = xvals ! j ^ i" using Q by simp
        then show ?thesis using True lj by simp
      next
        case False
        then have "k \<le> i" using k by simp
        then have "t ! j ! k = xvals ! j ^ k" using Q by simp
        then show ?thesis using False lj by (simp add: nth_list_update)
      qed
    qed
    ultimately show "\<exists>t'. power_step xvals j i t = Some t' \<and> ?Q (Suc i) t'"
      using step by blast
  qed
  then obtain A' where run: "for_loop 0 m (power_step xvals j) A = Some A'" and Q: "?Q m A'"
    by blast
  have "\<forall>r<Suc j. \<forall>k\<le>m. A' ! r ! k = xvals ! r ^ k"
    using Q by (auto simp: less_Suc_eq)
  with run Q show ?thesis by blast
qed

lemma vandermonde_eq:
  assumes "0 \<le> order"
  shows "vandermonde junk xvals order =
     Some (map (\<lambda>x. map (\<lambda>k. x ^ k) [0..<nat order + 1]) xvals)"
proof -
  let ?m = "nat order" and ?rows = "length xvals"
  let ?A0 = "MatrixXd junk ?rows (nat (order + 1))"
  have cols: "nat (order + 1) = Suc ?m" using assms by simp
  from first_column_loop [of ?A0 ?rows ?m] obtain A1 where
    l1: "for_loop 0 ?rows (\<lambda>i A. mat_wr A i 0 1) ?A0 = Some A1"
    and s1: "length A1 = ?rows" "\<forall>r<?rows. length (A1 ! r) = Suc ?m"
    and o1: "\<forall>r<?rows. A1 ! r ! 0 = 1"
    using cols by auto
  let ?R = "\<lambda>j A'. length A' = ?rows \<and> (\<forall>r<?rows. length (A' ! r) = Suc ?m) \<and>
           (\<forall>r<?rows. A' ! r ! 0 = 1) \<and> (\<forall>r<j. \<forall>k\<le>?m. A' ! r ! k = xvals ! r ^ k)"
  have "\<exists>A2. for_loop 0 ?rows (\<lambda>j A. for_loop 0 ?m (power_step xvals j) A) A1 = Some A2 \<and>
          ?R ?rows A2"
  proof (rule for_loop_invariant [where P = ?R])
    show "?R 0 A1" using s1 o1 by simp
    show "0 \<le> ?rows" by simp
  next
    fix j and t :: "real list list"
    assume "j < ?rows" and "?R j t"
    then show "\<exists>t'. for_loop 0 ?m (power_step xvals j) t = Some t' \<and> ?R (Suc j) t'"
      using powers_row_loop [of j xvals t ?m] by blast
  qed
  then obtain A2 where
    l2: "for_loop 0 ?rows (\<lambda>j A. for_loop 0 ?m (power_step xvals j) A) A1 = Some A2"
    and R: "?R ?rows A2"
    by blast
  have "A2 = map (\<lambda>x. map (\<lambda>k. x ^ k) [0..<?m + 1]) xvals"
  proof (rule nth_equalityI)
    show "length A2 = length (map (\<lambda>x. map (\<lambda>k. x ^ k) [0..<?m + 1]) xvals)"
      using R by simp
  next
    fix r assume r: "r < length A2"
    then have r': "r < ?rows" using R by simp
    have "A2 ! r = map (\<lambda>k. xvals ! r ^ k) [0..<?m + 1]"
    proof (rule nth_equalityI)
      show "length (A2 ! r) = length (map (\<lambda>k. xvals ! r ^ k) [0..<?m + 1])"
        using R r' by simp
    next
      fix k assume "k < length (A2 ! r)"
      then have "k \<le> ?m" using R r' by simp
      then have "A2 ! r ! k = xvals ! r ^ k" using R r' by simp
      moreover have "map (\<lambda>k. xvals ! r ^ k) [0..<?m + 1] ! k = xvals ! r ^ k"
        using \<open>k \<le> ?m\<close> by (simp add: nth_append less_Suc_eq_le del: upt_Suc)
      ultimately show "A2 ! r ! k = map (\<lambda>k. xvals ! r ^ k) [0..<?m + 1] ! k" by simp
    qed
    then show "A2 ! r = map (\<lambda>x. map (\<lambda>k. x ^ k) [0..<?m + 1]) xvals ! r"
      using r' by simp
  qed
  then show ?thesis
    by (simp only: vandermonde_def Let_def l1 l2 Option.bind.simps)
qed

text \<open>
  Claim C8, as the source has it. \<^verbatim>\<open>polyfit\<close> asserts that both vectors have the same
  length and that \<open>1 \<le> order \<le> len - 1\<close>. When the caller meets this, the result is the
  solver's answer for the Vandermonde matrix of the x values with \<open>order + 1\<close> columns;
  when not, the assertion fails and the process is aborted, so that neither an error value
  nor a coefficient vector reaches the caller.
\<close>

theorem polyfit_asserts_order:
  "polyfit qr_solve junk xvals yvals order =
     (if length xvals = length yvals \<and> 1 \<le> order \<and> order \<le> int (length xvals) - 1
      then Returned (qr_solve (map (\<lambda>x. map (\<lambda>k. x ^ k) [0..<nat order + 1]) xvals) yvals)
      else Assertion_failed)"
  by (simp add: polyfit_def vandermonde_eq)

text \<open>
  Three points: order 2 is accepted (the stand-in solvers expose the right-hand side, the
  first column and the last row of the matrix), order 0 and unequal lengths are not.
\<close>

theorem polyfit_asserts_order_witness:
  "polyfit (\<lambda>A y. y) (\<lambda>r c. 0) [1, 2, 3] [4, 5, 6] 2 = Returned [4, 5, 6] \<and>
   polyfit (\<lambda>A y. map hd A) (\<lambda>r c. 0) [1, 2, 3] [4, 5, 6] 2 = Returned [1, 1, 1] \<and>
   polyfit (\<lambda>A y. A ! 2) (\<lambda>r c. 0) [1, 2, 3] [4, 5, 6] 2 = Returned [1, 3, 9] \<and>
   polyfit (\<lambda>A y. y) (\<lambda>r c. 0) [1, 2, 3] [4, 5, 6] 0 = Assertion_failed \<and>
   polyfit (\<lambda>A y. y) (\<lambda>r c. 0) [1, 2, 3] [4, 5] 1 = Assertion_failed"
  by (simp add: polyfit_asserts_order eval_nat_numeral upt_rec)

text \<open>
  Order 3 for three points, which is \<open>order = len(points)\<close>: the call ends in the failed
  assertion and returns nothing.
\<close>

theorem polyfit_invalid_input_counterexample:
  "polyfit (\<lambda>A y. y) (\<lambda>r c. 0) [1, 2, 3] [4, 5, 6] 3 = Assertion_failed"
  by (simp add: polyfit_def)

end
